theory Spec2Isabelle
  imports Complex_Main
begin

section \<open>JavaScript values\<close>

text \<open>
  The handlers of this repository work on values produced by \<^verbatim>\<open>JSON.parse\<close> and
  on the records they build themselves. A Number is a double: \<open>NaN\<close>, the two
  infinities, or a finite value. \<open>Fin q\<close> stands for the double nearest to the
  rational \<open>q\<close>; rounding to nearest is monotone and keeps the sign, so every test
  of the handlers on a Number (\<^verbatim>\<open>isNaN\<close>, \<^verbatim>\<open>amount <= 0\<close>, truthiness) is decided
  by \<open>q\<close> once underflow and overflow are applied (\<open>to_double\<close> below). Negative
  zero is identified with zero: both are falsy and both satisfy \<^verbatim>\<open><= 0\<close>.
  An object is the list of its own properties in insertion order, with distinct keys
  as \<^verbatim>\<open>JSON.parse\<close> delivers them; it has no function-valued property. A string is
  a list of 8-bit characters.
\<close>

datatype jsnum = NaN | PosInf | NegInf | Fin rat

datatype jsvalue =
    JUndefined
  | JNull
  | JBool bool
  | JNum jsnum
  | JStr string
  | JArr "jsvalue list"
  | JObj "(string \<times> jsvalue) list"

datatype js_error = TypeError

text \<open>\<^verbatim>\<open>ToBoolean\<close>: the falsy values are undefined, null, false, NaN, 0 and the empty string.\<close>

fun truthy :: "jsvalue \<Rightarrow> bool" where
  "truthy JUndefined = False"
| "truthy JNull = False"
| "truthy (JBool b) = b"
| "truthy (JNum NaN) = False"
| "truthy (JNum (Fin q)) = (q \<noteq> 0)"
| "truthy (JNum _) = True"
| "truthy (JStr s) = (s \<noteq> [])"
| "truthy (JArr _) = True"
| "truthy (JObj _) = True"

text \<open>\<^verbatim>\<open>a || b\<close>\<close>

definition js_or :: "jsvalue \<Rightarrow> jsvalue \<Rightarrow> jsvalue" where
  "js_or a b = (if truthy a then a else b)"

text \<open>
  \<^verbatim>\<open>field in obj\<close> throws a TypeError when \<open>obj\<close> is not an object. The only keys
  asked for are \<^verbatim>\<open>amount\<close>, \<^verbatim>\<open>description\<close>, \<^verbatim>\<open>category\<close> and \<^verbatim>\<open>date\<close>, none of
  which is on \<^verbatim>\<open>Object.prototype\<close> or \<^verbatim>\<open>Array.prototype\<close>, and none of which is an
  array index, so an array has none of them.
\<close>

fun js_in :: "string \<Rightarrow> jsvalue \<Rightarrow> js_error + bool" where
  "js_in k (JObj kvs) = Inr (map_of kvs k \<noteq> None)"
| "js_in k (JArr _) = Inr False"
| "js_in k _ = Inl TypeError"

text \<open>
  \<^verbatim>\<open>obj.field\<close> and the destructuring \<^verbatim>\<open>const { field } = obj\<close>: a TypeError on
  undefined and null, \<^verbatim>\<open>undefined\<close> for a key the value does not have. The keys read
  are the four above, which no array, string, number or boolean has.
\<close>

definition own_property :: "(string \<times> jsvalue) list \<Rightarrow> string \<Rightarrow> jsvalue" where
  "own_property kvs k = (case map_of kvs k of None \<Rightarrow> JUndefined | Some v \<Rightarrow> v)"

fun js_get :: "jsvalue \<Rightarrow> string \<Rightarrow> js_error + jsvalue" where
  "js_get JUndefined k = Inl TypeError"
| "js_get JNull k = Inl TypeError"
| "js_get (JObj kvs) k = Inr (own_property kvs k)"
| "js_get _ k = Inr JUndefined"

section \<open>parseFloat\<close>

definition isWhiteSpace :: "char \<Rightarrow> bool" where
  "isWhiteSpace c = (of_char c \<in> {9, 10, 11, 12, 13, 32, 160 :: nat})"

definition isDigit :: "char \<Rightarrow> bool" where
  "isDigit c = (48 \<le> (of_char c :: nat) \<and> (of_char c :: nat) \<le> 57)"

definition digitsValue :: "string \<Rightarrow> nat" where
  "digitsValue ds = foldl (\<lambda>acc c. 10 * acc + (of_char c - 48)) 0 ds"

text \<open>
  The double a decimal value rounds to, as far as the handlers can tell: a magnitude of
  at most \<open>2^-1075\<close> (half the least subnormal, the tie going to even) becomes zero,
  one of at least \<open>2^1024 - 2^970\<close> (the largest double plus half an ulp) becomes
  an infinity.
\<close>

definition to_double :: "rat \<Rightarrow> jsnum" where
  "to_double q =
     (if \<bar>q\<bar> \<le> 1 / 2 ^ 1075 then Fin 0
      else if 2 ^ 1024 - 2 ^ 970 \<le> \<bar>q\<bar> then (if 0 < q then PosInf else NegInf)
      else Fin q)"

definition scale10 :: "nat \<Rightarrow> int \<Rightarrow> rat" where
  "scale10 m e = (if 0 \<le> e then of_nat m * 10 ^ nat e else of_nat m / 10 ^ nat (- e))"

text \<open>\<^verbatim>\<open>ExponentPart\<close>: \<^verbatim>\<open>e\<close> or \<^verbatim>\<open>E\<close>, an optional sign, at least one digit; 0 when the
  text does not start with a complete one (the longest literal then ends before it).\<close>

definition exponentPart :: "string \<Rightarrow> int" where
  "exponentPart s =
     (case s of
        [] \<Rightarrow> 0
      | c # r \<Rightarrow>
          if c = CHR ''e'' \<or> c = CHR ''E'' then
            (case r of
               [] \<Rightarrow> 0
             | d # r' \<Rightarrow>
                 if d = CHR ''-'' then
                   (if takeWhile isDigit r' = [] then 0
                    else - int (digitsValue (takeWhile isDigit r')))
                 else if d = CHR ''+'' then int (digitsValue (takeWhile isDigit r'))
                 else int (digitsValue (takeWhile isDigit r)))
          else 0)"

text \<open>\<^verbatim>\<open>StrUnsignedDecimalLiteral\<close>, longest prefix; \<open>None\<close> when no prefix is one.
  The result is the magnitude: \<open>Inl ()\<close> for \<^verbatim>\<open>Infinity\<close>, else the exact decimal value.\<close>

definition unsignedLiteral :: "string \<Rightarrow> (unit + rat) option" where
  "unsignedLiteral s =
     (if take 8 s = ''Infinity'' then Some (Inl ())
      else
        let ip = takeWhile isDigit s; r1 = dropWhile isDigit s in
        (case r1 of
           c # r \<Rightarrow>
             if c = CHR ''.'' then
               (let fp = takeWhile isDigit r; r2 = dropWhile isDigit r in
                if ip = [] \<and> fp = [] then None
                else Some (Inr (scale10 (digitsValue (ip @ fp))
                                  (exponentPart r2 - int (length fp)))))
             else if ip = [] then None
             else Some (Inr (scale10 (digitsValue ip) (exponentPart r1)))
         | [] \<Rightarrow> if ip = [] then None else Some (Inr (scale10 (digitsValue ip) 0))))"

definition parseFloatString :: "string \<Rightarrow> jsnum" where
  "parseFloatString s =
     (let t = dropWhile isWhiteSpace s;
          neg = (t \<noteq> [] \<and> hd t = CHR ''-'');
          u = (if t \<noteq> [] \<and> (hd t = CHR ''-'' \<or> hd t = CHR ''+'') then tl t else t)
      in case unsignedLiteral u of
           None \<Rightarrow> NaN
         | Some (Inl _) \<Rightarrow> (if neg then NegInf else PosInf)
         | Some (Inr q) \<Rightarrow> to_double (if neg then - q else q))"

text \<open>
  \<^verbatim>\<open>ToString(v)\<close> throws a TypeError for an object that has an own property named
  \<^verbatim>\<open>toString\<close>: the property is not a function, so the conversion goes on to
  \<^verbatim>\<open>valueOf\<close>, which gives no primitive value either. An array is joined from the
  conversions of all its elements, so it throws when one of them does.
\<close>

fun toString_throws :: "jsvalue \<Rightarrow> bool" where
  "toString_throws (JObj kvs) = (map_of kvs ''toString'' \<noteq> None)"
| "toString_throws (JArr xs) = (\<exists>x\<in>set xs. toString_throws x)"
| "toString_throws _ = False"

text \<open>
  The longest decimal literal at the start of \<^verbatim>\<open>ToString(v)\<close>, when that does not throw.
  For a Number, \<^verbatim>\<open>ToString\<close> prints a literal that reads back as the same value.
  \<^verbatim>\<open>"true"\<close>, \<^verbatim>\<open>"null"\<close>, \<^verbatim>\<open>"undefined"\<close> and \<^verbatim>\<open>"[object Object]"\<close> start with no
  literal. An array prints its elements joined by commas (null and undefined as the
  empty text), and a comma ends every literal, so only the first element counts.
\<close>

fun parsedPrefix :: "jsvalue \<Rightarrow> jsnum" where
  "parsedPrefix (JNum n) = n"
| "parsedPrefix (JStr s) = parseFloatString s"
| "parsedPrefix (JArr (x # xs)) = parsedPrefix x"
| "parsedPrefix _ = NaN"

definition parseFloat :: "jsvalue \<Rightarrow> js_error + jsnum" where
  "parseFloat v = (if toString_throws v then Inl TypeError else Inr (parsedPrefix v))"

definition isNaN :: "jsnum \<Rightarrow> bool" where
  "isNaN n = (n = NaN)"

text \<open>\<^verbatim>\<open>n <= 0\<close> on Numbers: false whenever \<open>n\<close> is NaN.\<close>

fun le_zero :: "jsnum \<Rightarrow> bool" where
  "le_zero NaN = False"
| "le_zero PosInf = False"
| "le_zero NegInf = True"
| "le_zero (Fin q) = (q \<le> 0)"

section \<open>Requests, responses and the store\<close>

text \<open>
  A request as the handlers read it: \<^verbatim>\<open>req.method\<close>; the value \<^verbatim>\<open>JSON.parse\<close> gives
  on the text streamed by the request, \<open>None\<close> when it throws (read by \<^verbatim>\<open>parseBody\<close>
  in \<^verbatim>\<open>api/expenses.js\<close>); and \<^verbatim>\<open>req.body\<close> as the platform sets it (read by the two
  files of \<^verbatim>\<open>unnamed/part_000\<close>), \<open>JUndefined\<close> when there is none.
  The clock gives what \<^verbatim>\<open>Date.now()\<close> and
  \<^verbatim>\<open>new Date().toISOString().split('T')[0]\<close> return while the request is handled.
  A response is the status code and the value handed to the platform for sending;
  headers are left out.
\<close>

record request =
  "method" :: string
  stream_json :: "jsvalue option"
  body :: jsvalue

record clock =
  Date_now :: int
  today :: string

record response =
  statusCode :: nat
  content :: jsvalue

text \<open>The records of \<^verbatim>\<open>api/expenses.js\<close> and of the second file of \<^verbatim>\<open>part_000\<close>.\<close>

record expense =
  idn :: int
  amount :: jsnum
  description :: jsvalue
  category :: jsvalue
  date :: jsvalue

definition expense_json :: "expense \<Rightarrow> jsvalue" where
  "expense_json e =
     JObj [(''id'', JNum (Fin (of_int (idn e)))),
           (''amount'', JNum (amount e)),
           (''description'', description e),
           (''category'', category e),
           (''date'', date e)]"

definition expenses_init :: "expense list" where
  "expenses_init =
     [\<lparr>idn = 1, amount = Fin 50, description = JStr ''Groceries for the week'',
        category = JStr ''Food'', date = JStr ''2025-11-28''\<rparr>,
      \<lparr>idn = 2, amount = Fin (1575 / 100),
        description = JStr ''Monthly streaming subscription'',
        category = JStr ''Entertainment'', date = JStr ''2025-12-01''\<rparr>]"

definition sendResponse :: "nat \<Rightarrow> jsvalue \<Rightarrow> response" where
  "sendResponse code b = \<lparr>statusCode = code, content = b\<rparr>"

text \<open>\<^verbatim>\<open>requiredFields.filter(field => !(field in newExpense))\<close>\<close>

fun missingFields :: "string list \<Rightarrow> jsvalue \<Rightarrow> js_error + string list" where
  "missingFields [] v = Inr []"
| "missingFields (f # fs) v =
     (case js_in f v of
        Inl err \<Rightarrow> Inl err
      | Inr present \<Rightarrow>
          (case missingFields fs v of
             Inl err \<Rightarrow> Inl err
           | Inr ms \<Rightarrow> Inr (if \<not> present then f # ms else ms)))"

text \<open>An expression that may throw, evaluated inside a handler: a throw leaves the
  handler at once, with the store as it stands.\<close>

definition on_value ::
  "js_error + 'a \<Rightarrow> 's \<Rightarrow> ('a \<Rightarrow> (js_error + response) \<times> 's)
     \<Rightarrow> (js_error + response) \<times> 's" where
  "on_value r s cont = (case r of Inl err \<Rightarrow> (Inl err, s) | Inr x \<Rightarrow> cont x)"

text \<open>\<^verbatim>\<open>expenses.length > 0 ? Math.max(...expenses.map(e => e.id)) + 1 : 1\<close>. The ids in
  the store are the integers the store assigned, far below \<open>2^53\<close>, so the
  arithmetic is exact.\<close>

definition newId :: "expense list \<Rightarrow> int" where
  "newId expenses =
     (case map idn expenses of [] \<Rightarrow> 1 | i # ids \<Rightarrow> fold max ids i + 1)"

section \<open>api/expenses.js\<close>

text \<open>
  \<^verbatim>\<open>parseBody\<close> collects the request stream up to its end and never rejects. The
  limits of an engine (memory, the number of arguments a call takes) are outside the
  model.
\<close>

definition parseBody :: "request \<Rightarrow> jsvalue" where
  "parseBody req = (case stream_json req of Some v \<Rightarrow> v | None \<Rightarrow> JObj [])"

definition handleGET :: "expense list \<Rightarrow> response \<times> expense list" where
  "handleGET expenses =
     (let sortedExpenses = rev expenses
      in (sendResponse 200
            (JObj [(''data'', JArr (map expense_json sortedExpenses)),
                   (''total'', JNum (Fin (of_nat (length expenses))))]),
          expenses))"

definition missing_response :: "string list \<Rightarrow> response" where
  "missing_response ms =
     sendResponse 400
       (JObj [(''error'', JStr ''Missing required fields''),
              (''missing'', JArr (map JStr ms))])"

definition invalid_amount_response :: response where
  "invalid_amount_response =
     sendResponse 400 (JObj [(''error'', JStr ''Invalid amount. Must be a positive number.'')])"

definition created_response :: "expense \<Rightarrow> response" where
  "created_response expenseRecord =
     sendResponse 201
       (JObj [(''message'', JStr ''Expense added successfully''),
              (''expense'', expense_json expenseRecord)])"

definition handlePOST ::
  "clock \<Rightarrow> jsvalue \<Rightarrow> expense list \<Rightarrow> (js_error + response) \<times> expense list" where
  "handlePOST clk newExpense expenses =
     (case missingFields [''amount'', ''description''] newExpense of
        Inl err \<Rightarrow> (Inl err, expenses)
      | Inr missing \<Rightarrow>
          if length missing > 0 then (Inr (missing_response missing), expenses)
          else
            on_value (js_get newExpense ''category'') expenses (\<lambda>c.
            on_value (js_get newExpense ''date'') expenses (\<lambda>d.
            on_value (js_get newExpense ''amount'') expenses (\<lambda>a.
            on_value (parseFloat a) expenses (\<lambda>amt.
            on_value (js_get newExpense ''description'') expenses (\<lambda>descr.
              let cat = js_or c (JStr ''Uncategorized'');
                  dat = js_or d (JStr (today clk))
              in if isNaN amt \<or> le_zero amt
                 then (Inr invalid_amount_response, expenses)
                 else
                   let expenseRecord =
                         \<lparr>idn = newId expenses, amount = amt, description = descr,
                          category = cat, date = dat\<rparr>
                   in (Inr (created_response expenseRecord),
                       expenses @ [expenseRecord])))))))"

definition handler :: "clock \<Rightarrow> request \<Rightarrow> expense list \<Rightarrow> response \<times> expense list" where
  "handler clk req expenses =
     (if method req = ''OPTIONS'' then (sendResponse 204 JNull, expenses)
      else
        let attempt =
              (if method req = ''GET'' then
                 (case handleGET expenses of (r, s) \<Rightarrow> (Inr r, s))
               else if method req = ''POST'' then
                 handlePOST clk (parseBody req) expenses
               else
                 (Inr (sendResponse 405
                         (JObj [(''error'', JStr (''Method '' @ method req @ '' Not Allowed''))])),
                  expenses))
        in case attempt of
             (Inl err, s) \<Rightarrow> (sendResponse 500 (JObj [(''error'', JStr ''Internal Server Error'')]), s)
           | (Inr r, s) \<Rightarrow> (r, s))"

section \<open>unnamed/part_000, second file: all four fields required\<close>

definition handleGET_p :: "expense list \<Rightarrow> response \<times> expense list" where
  "handleGET_p expenses =
     (sendResponse 200
        (JObj [(''data'', JArr (map expense_json expenses)),
               (''total'', JNum (Fin (of_nat (length expenses))))]),
      expenses)"

definition handlePOST_p ::
  "request \<Rightarrow> expense list \<Rightarrow> (js_error + response) \<times> expense list" where
  "handlePOST_p req expenses =
     (let newExpense = body req in
      case missingFields [''amount'', ''description'', ''category'', ''date''] newExpense of
        Inl err \<Rightarrow> (Inl err, expenses)
      | Inr missing \<Rightarrow>
          if length missing > 0 then (Inr (missing_response missing), expenses)
          else
            on_value (js_get newExpense ''amount'') expenses (\<lambda>a.
            on_value (parseFloat a) expenses (\<lambda>amt.
            on_value (js_get newExpense ''description'') expenses (\<lambda>descr.
            on_value (js_get newExpense ''category'') expenses (\<lambda>cat.
            on_value (js_get newExpense ''date'') expenses (\<lambda>dat.
              if isNaN amt \<or> le_zero amt
              then (Inr invalid_amount_response, expenses)
              else
                let expenseRecord =
                      \<lparr>idn = newId expenses, amount = amt, description = descr,
                       category = cat, date = dat\<rparr>
                in (Inr (created_response expenseRecord),
                    expenses @ [expenseRecord])))))))"

definition handler_p :: "request \<Rightarrow> expense list \<Rightarrow> response \<times> expense list" where
  "handler_p req expenses =
     (let attempt =
            (if method req = ''GET'' then
               (case handleGET_p expenses of (r, s) \<Rightarrow> (Inr r, s))
             else if method req = ''POST'' then handlePOST_p req expenses
             else
               (Inr (sendResponse 405
                       (JObj [(''error'', JStr (''Method '' @ method req @ '' Not Allowed''))])),
                expenses))
      in case attempt of
           (Inl err, s) \<Rightarrow> (sendResponse 500 (JObj [(''error'', JStr ''Internal Server Error'')]), s)
         | (Inr r, s) \<Rightarrow> (r, s))"

section \<open>unnamed/part_000, first file: timestamp ids\<close>

text \<open>The records of this file have no category, and their id is a string.\<close>

record expense_t =
  id_t :: string
  description_t :: jsvalue
  amount_t :: jsnum
  date_t :: jsvalue

definition expense_t_json :: "expense_t \<Rightarrow> jsvalue" where
  "expense_t_json e =
     JObj [(''id'', JStr (id_t e)),
           (''description'', description_t e),
           (''amount'', JNum (amount_t e)),
           (''date'', date_t e)]"

text \<open>\<^verbatim>\<open>Date.now().toString()\<close>: the decimal digits of an integer.\<close>

function decimal :: "int \<Rightarrow> string" where
  "decimal n =
     (if n < 10 then [char_of (48 + n)]
      else decimal (n div 10) @ [char_of (48 + n mod 10)])"
  by pat_completeness auto
termination
  by (relation "measure nat") auto

declare decimal.simps [simp del]

definition toString :: "int \<Rightarrow> string" where
  "toString i = (if i < 0 then CHR ''-'' # decimal (- i) else decimal i)"

text \<open>The handler has no \<^verbatim>\<open>try\<close>: a throw leaves it as an uncaught error.\<close>

definition module_exports ::
  "clock \<Rightarrow> request \<Rightarrow> expense_t list \<Rightarrow> (js_error + response) \<times> expense_t list" where
  "module_exports clk req expenses =
     (if method req = ''OPTIONS'' then (Inr (sendResponse 200 JUndefined), expenses)
      else if method req = ''GET'' then
        (Inr (sendResponse 200
                (JObj [(''message'', JStr ''Data retrieved (In-memory, NOT persistent on Vercel).''),
                       (''data'', JArr (map expense_t_json expenses))])),
         expenses)
      else if method req = ''POST'' then
        on_value (js_get (body req) ''description'') expenses (\<lambda>descr.
        on_value (js_get (body req) ''amount'') expenses (\<lambda>amt.
        on_value (js_get (body req) ''date'') expenses (\<lambda>dat.
          if \<not> truthy descr \<or> \<not> truthy amt then
            (Inr (sendResponse 400
                    (JObj [(''error'', JStr ''Missing required fields: description and amount.'')])),
             expenses)
          else
            on_value (parseFloat amt) expenses (\<lambda>parsed.
              let newExpense =
                    \<lparr>id_t = toString (Date_now clk), description_t = descr,
                     amount_t = parsed,
                     date_t = js_or dat (JStr (today clk))\<rparr>
              in (Inr (sendResponse 201
                        (JObj [(''message'', JStr ''Expense added successfully (In-memory, NOT persistent on Vercel).''),
                               (''expense'', expense_t_json newExpense)])),
                  expenses @ [newExpense])))))
      else (Inr (sendResponse 405 (JStr ''Method Not Allowed'')), expenses))"

section \<open>Sequential execution\<close>

text \<open>
  The module-level \<^verbatim>\<open>expenses\<close> array lives across invocations; each request runs to
  completion before the next one starts.
\<close>

fun serve :: "(clock \<times> request) list \<Rightarrow> expense list \<Rightarrow> expense list" where
  "serve [] expenses = expenses"
| "serve ((clk, req) # rest) expenses = serve rest (snd (handler clk req expenses))"

fun serve_p :: "request list \<Rightarrow> expense list \<Rightarrow> expense list" where
  "serve_p [] expenses = expenses"
| "serve_p (req # rest) expenses = serve_p rest (snd (handler_p req expenses))"

fun serve_t :: "(clock \<times> request) list \<Rightarrow> expense_t list \<Rightarrow> expense_t list" where
  "serve_t [] expenses = expenses"
| "serve_t ((clk, req) # rest) expenses = serve_t rest (snd (module_exports clk req expenses))"

text \<open>Requests used as concrete inputs: a POST whose text parses to \<open>v\<close>, a POST whose
  text does not parse, and a request with no body.\<close>

definition post :: "jsvalue \<Rightarrow> request" where
  "post v = \<lparr>method = ''POST'', stream_json = Some v, body = v\<rparr>"

definition post_unparseable :: request where
  "post_unparseable = \<lparr>method = ''POST'', stream_json = None, body = JUndefined\<rparr>"

definition bodiless :: "string \<Rightarrow> request" where
  "bodiless m = \<lparr>method = m, stream_json = None, body = JUndefined\<rparr>"

section \<open>Properties of the create and list operations\<close>

subsection \<open>Evaluating the parser\<close>

lemmas parseFloat_defs =
  parseFloatString_def unsignedLiteral_def exponentPart_def digitsValue_def scale10_def
  to_double_def isDigit_def isWhiteSpace_def Let_def

lemma parseFloat_samples:
  "parseFloatString ''abc'' = NaN"
  "parseFloatString ''Infinity'' = PosInf"
  "parseFloatString ''12.50'' = Fin (25 / 2)"
  "parseFloatString ''-5'' = Fin (- 5)"
  "parseFloatString ''  20 EUR'' = Fin 20"
  "parseFloatString ''1e400'' = PosInf"
  "parseFloatString ''1e-400'' = Fin 0"
  by (simp_all add: parseFloat_defs)

lemma toString_sample: "toString 1764547200000 = ''1764547200000''"
  by code_simp

subsection \<open>The required-field filter\<close>

lemma missingFields_JObj:
  "missingFields fs (JObj kvs) = Inr (filter (\<lambda>f. map_of kvs f = None) fs)"
  by (induction fs) auto

lemma missingFields_JArr: "missingFields fs (JArr xs) = Inr fs"
  by (induction fs) auto

lemma missingFields_primitive:
  assumes "\<forall>kvs. v \<noteq> JObj kvs" and "\<forall>xs. v \<noteq> JArr xs" and "fs \<noteq> []"
  shows "missingFields fs v = Inl TypeError"
proof -
  have "js_in f v = Inl TypeError" for f
    using assms(1,2) by (cases v) auto
  with assms(3) show ?thesis by (cases fs) auto
qed

subsection \<open>What \<open>parseFloat\<close> returns\<close>

lemma parseFloat_JNum [simp]: "parseFloat (JNum n) = Inr n"
  by (simp add: parseFloat_def)

lemma parseFloat_JStr [simp]: "parseFloat (JStr str) = Inr (parseFloatString str)"
  by (simp add: parseFloat_def)

subsection \<open>What the create operation returns\<close>

lemma handlePOST_missing:
  assumes "map_of kvs ''amount'' = None \<or> map_of kvs ''description'' = None"
  shows "handlePOST clk (JObj kvs) s =
           (Inr (missing_response
                   (filter (\<lambda>f. map_of kvs f = None) [''amount'', ''description''])), s)"
  using assms by (auto simp: handlePOST_def missingFields_JObj)

lemma handlePOST_present:
  assumes "map_of kvs ''amount'' = Some a" and "map_of kvs ''description'' = Some d"
    and "parseFloat a = Inr n"
  shows "handlePOST clk (JObj kvs) s =
           (if isNaN n \<or> le_zero n
            then (Inr invalid_amount_response, s)
            else (Inr (created_response
                         \<lparr>idn = newId s, amount = n, description = d,
                          category = js_or (own_property kvs ''category'') (JStr ''Uncategorized''),
                          date = js_or (own_property kvs ''date'') (JStr (today clk))\<rparr>),
                  s @ [\<lparr>idn = newId s, amount = n, description = d,
                        category = js_or (own_property kvs ''category'') (JStr ''Uncategorized''),
                        date = js_or (own_property kvs ''date'') (JStr (today clk))\<rparr>]))"
  using assms
  by (simp add: handlePOST_def missingFields_JObj on_value_def Let_def own_property_def)

lemma handlePOST_throws:
  assumes "map_of kvs ''amount'' = Some a" and "map_of kvs ''description'' = Some d"
    and "parseFloat a = Inl err"
  shows "handlePOST clk (JObj kvs) s = (Inl err, s)"
  using assms
  by (simp add: handlePOST_def missingFields_JObj on_value_def Let_def own_property_def)

lemma handlePOST_store:
  "(snd (handlePOST clk v s) = s \<and>
      (case fst (handlePOST clk v s) of Inl err \<Rightarrow> True | Inr r \<Rightarrow> statusCode r = 400)) \<or>
   (\<exists>e. handlePOST clk v s = (Inr (created_response e), s @ [e]) \<and> idn e = newId s)"
  by (auto simp: handlePOST_def on_value_def Let_def missing_response_def
      invalid_amount_response_def sendResponse_def split: sum.splits)

lemma handlePOST_p_store:
  "(snd (handlePOST_p req s) = s \<and>
      (case fst (handlePOST_p req s) of Inl err \<Rightarrow> True | Inr r \<Rightarrow> statusCode r = 400)) \<or>
   (\<exists>e. handlePOST_p req s = (Inr (created_response e), s @ [e]) \<and> idn e = newId s)"
  by (auto simp: handlePOST_p_def on_value_def Let_def missing_response_def
      invalid_amount_response_def sendResponse_def split: sum.splits)

lemma handlePOST_p_present:
  assumes "body req = JObj kvs"
    and "map_of kvs ''amount'' = Some a" and "map_of kvs ''description'' = Some d"
    and "map_of kvs ''category'' = Some c" and "map_of kvs ''date'' = Some dt"
    and "parseFloat a = Inr n"
  shows "handlePOST_p req s =
           (if isNaN n \<or> le_zero n
            then (Inr invalid_amount_response, s)
            else (Inr (created_response
                         \<lparr>idn = newId s, amount = n, description = d,
                          category = c, date = dt\<rparr>),
                  s @ [\<lparr>idn = newId s, amount = n, description = d,
                        category = c, date = dt\<rparr>]))"
  using assms
  by (simp add: handlePOST_p_def missingFields_JObj on_value_def Let_def own_property_def)

lemma handlePOST_p_throws:
  assumes "body req = JObj kvs"
    and "map_of kvs ''amount'' = Some a" and "map_of kvs ''description'' = Some d"
    and "map_of kvs ''category'' = Some c" and "map_of kvs ''date'' = Some dt"
    and "parseFloat a = Inl err"
  shows "handlePOST_p req s = (Inl err, s)"
  using assms
  by (simp add: handlePOST_p_def missingFields_JObj on_value_def Let_def own_property_def)

lemma handlePOST_p_missing_gen:
  assumes "missingFields [''amount'', ''description'', ''category'', ''date''] (body req) = Inr ms"
    and "ms \<noteq> []"
  shows "handlePOST_p req s = (Inr (missing_response ms), s)"
  using assms by (simp add: handlePOST_p_def Let_def)

lemma handlePOST_p_missing:
  assumes "body req = JObj kvs"
    and "filter (\<lambda>f. map_of kvs f = None) [''amount'', ''description'', ''category'', ''date''] \<noteq> []"
  shows "handlePOST_p req s =
           (Inr (missing_response
                   (filter (\<lambda>f. map_of kvs f = None)
                      [''amount'', ''description'', ''category'', ''date''])), s)"
proof (rule handlePOST_p_missing_gen)
  show "missingFields [''amount'', ''description'', ''category'', ''date''] (body req) =
          Inr (filter (\<lambda>f. map_of kvs f = None)
                 [''amount'', ''description'', ''category'', ''date''])"
    by (simp only: assms(1) missingFields_JObj)
qed (rule assms(2))

lemma handler_POST:
  assumes "method req = ''POST''"
  shows "handler clk req s =
           (case handlePOST clk (parseBody req) s of
              (Inl err, s') \<Rightarrow>
                (sendResponse 500 (JObj [(''error'', JStr ''Internal Server Error'')]), s')
            | (Inr r, s') \<Rightarrow> (r, s'))"
  using assms by (simp add: handler_def)

lemma handler_p_POST:
  assumes "method req = ''POST''"
  shows "handler_p req s =
           (case handlePOST_p req s of
              (Inl err, s') \<Rightarrow>
                (sendResponse 500 (JObj [(''error'', JStr ''Internal Server Error'')]), s')
            | (Inr r, s') \<Rightarrow> (r, s'))"
  using assms by (simp add: handler_p_def)

lemma statusCode_created [simp]: "statusCode (created_response e) = 201"
  by (simp add: created_response_def sendResponse_def)

lemma statusCode_missing [simp]: "statusCode (missing_response ms) = 400"
  by (simp add: missing_response_def sendResponse_def)

lemma statusCode_invalid_amount [simp]: "statusCode invalid_amount_response = 400"
  by (simp add: invalid_amount_response_def sendResponse_def)

lemma statusCode_sendResponse [simp]: "statusCode (sendResponse c b) = c"
  by (simp add: sendResponse_def)

lemma handler_store:
  "(snd (handler clk req s) = s \<and> statusCode (fst (handler clk req s)) \<noteq> 201) \<or>
   (\<exists>e. handler clk req s = (created_response e, s @ [e]) \<and> idn e = newId s)"
proof (cases "method req = ''POST''")
  case True
  from handlePOST_store [of clk "parseBody req" s] show ?thesis
    by (auto simp: handler_POST [OF True] split: sum.splits prod.splits)
next
  case False
  then show ?thesis
    by (simp add: handler_def handleGET_def Let_def)
qed

lemma handler_p_store:
  "(snd (handler_p req s) = s \<and> statusCode (fst (handler_p req s)) \<noteq> 201) \<or>
   (\<exists>e. handler_p req s = (created_response e, s @ [e]) \<and> idn e = newId s)"
proof (cases "method req = ''POST''")
  case True
  from handlePOST_p_store [of req s] show ?thesis
    by (auto simp: handler_p_POST [OF True] split: sum.splits prod.splits)
next
  case False
  then show ?thesis
    by (simp add: handler_p_def handleGET_p_def Let_def)
qed

lemma module_exports_store:
  "(snd (module_exports clk req t) = t \<and>
      (case fst (module_exports clk req t) of Inl err \<Rightarrow> True | Inr r \<Rightarrow> statusCode r \<noteq> 201)) \<or>
   (\<exists>r e. module_exports clk req t = (Inr r, t @ [e]) \<and> statusCode r = 201 \<and>
          id_t e = toString (Date_now clk))"
  by (auto simp: module_exports_def on_value_def Let_def split: sum.splits)

lemma handler_POST_present:
  assumes "method req = ''POST''" and "stream_json req = Some (JObj kvs)"
    and "map_of kvs ''amount'' = Some a" and "map_of kvs ''description'' = Some d"
    and "parseFloat a = Inr n"
  shows "handler clk req s =
           (if isNaN n \<or> le_zero n
            then (invalid_amount_response, s)
            else (created_response
                    \<lparr>idn = newId s, amount = n, description = d,
                     category = js_or (own_property kvs ''category'') (JStr ''Uncategorized''),
                     date = js_or (own_property kvs ''date'') (JStr (today clk))\<rparr>,
                  s @ [\<lparr>idn = newId s, amount = n, description = d,
                        category = js_or (own_property kvs ''category'') (JStr ''Uncategorized''),
                        date = js_or (own_property kvs ''date'') (JStr (today clk))\<rparr>]))"
proof -
  from assms(2) have "parseBody req = JObj kvs"
    by (simp add: parseBody_def)
  then show ?thesis
    by (simp add: handler_POST [OF assms(1)] handlePOST_present [OF assms(3-5)])
qed

lemma handler_POST_throws:
  assumes "method req = ''POST''" and "stream_json req = Some (JObj kvs)"
    and "map_of kvs ''amount'' = Some a" and "map_of kvs ''description'' = Some d"
    and "parseFloat a = Inl err"
  shows "handler clk req s =
           (sendResponse 500 (JObj [(''error'', JStr ''Internal Server Error'')]), s)"
proof -
  from assms(2) have "parseBody req = JObj kvs"
    by (simp add: parseBody_def)
  then show ?thesis
    by (simp add: handler_POST [OF assms(1)] handlePOST_throws [OF assms(3-5)])
qed

lemma handler_POST_missing:
  assumes "method req = ''POST''" and "stream_json req = Some (JObj kvs)"
    and "map_of kvs ''amount'' = None \<or> map_of kvs ''description'' = None"
  shows "handler clk req s =
           (missing_response
              (filter (\<lambda>f. map_of kvs f = None) [''amount'', ''description'']), s)"
proof -
  from assms(2) have "parseBody req = JObj kvs"
    by (simp add: parseBody_def)
  then show ?thesis
    by (simp only: handler_POST [OF assms(1)] handlePOST_missing [OF assms(3)]) simp
qed

lemma handler_p_POST_present:
  assumes "method req = ''POST''" and "body req = JObj kvs"
    and "map_of kvs ''amount'' = Some a" and "map_of kvs ''description'' = Some d"
    and "map_of kvs ''category'' = Some c" and "map_of kvs ''date'' = Some dt"
    and "parseFloat a = Inr n"
  shows "handler_p req s =
           (if isNaN n \<or> le_zero n
            then (invalid_amount_response, s)
            else (created_response
                    \<lparr>idn = newId s, amount = n, description = d,
                     category = c, date = dt\<rparr>,
                  s @ [\<lparr>idn = newId s, amount = n, description = d,
                        category = c, date = dt\<rparr>]))"
  by (simp add: handler_p_POST [OF assms(1)] handlePOST_p_present [OF assms(2-7)])

lemma handler_p_POST_throws:
  assumes "method req = ''POST''" and "body req = JObj kvs"
    and "map_of kvs ''amount'' = Some a" and "map_of kvs ''description'' = Some d"
    and "map_of kvs ''category'' = Some c" and "map_of kvs ''date'' = Some dt"
    and "parseFloat a = Inl err"
  shows "handler_p req s =
           (sendResponse 500 (JObj [(''error'', JStr ''Internal Server Error'')]), s)"
  by (simp add: handler_p_POST [OF assms(1)] handlePOST_p_throws [OF assms(2-7)])

lemma handler_p_POST_missing:
  assumes "method req = ''POST''" and "body req = JObj kvs"
    and "filter (\<lambda>f. map_of kvs f = None) [''amount'', ''description'', ''category'', ''date''] \<noteq> []"
  shows "handler_p req s =
           (missing_response
              (filter (\<lambda>f. map_of kvs f = None)
                 [''amount'', ''description'', ''category'', ''date'']), s)"
  by (simp only: handler_p_POST [OF assms(1)] handlePOST_p_missing [OF assms(2,3)]) simp

lemma module_exports_POST_falsy:
  assumes "method req = ''POST''" and "body req = JObj kvs"
    and "\<not> truthy (own_property kvs ''description'') \<or> \<not> truthy (own_property kvs ''amount'')"
  shows "module_exports clk req t =
           (Inr (sendResponse 400
                   (JObj [(''error'', JStr ''Missing required fields: description and amount.'')])),
            t)"
  using assms by (auto simp: module_exports_def on_value_def Let_def)

lemma module_exports_POST_truthy:
  assumes "method req = ''POST''" and "body req = JObj kvs"
    and "truthy (own_property kvs ''description'')" and "truthy (own_property kvs ''amount'')"
    and "parseFloat (own_property kvs ''amount'') = Inr n"
  shows "module_exports clk req t =
           (Inr (sendResponse 201
                   (JObj [(''message'', JStr ''Expense added successfully (In-memory, NOT persistent on Vercel).''),
                          (''expense'', expense_t_json
                             \<lparr>id_t = toString (Date_now clk),
                              description_t = own_property kvs ''description'',
                              amount_t = n,
                              date_t = js_or (own_property kvs ''date'') (JStr (today clk))\<rparr>)])),
            t @ [\<lparr>id_t = toString (Date_now clk),
                  description_t = own_property kvs ''description'',
                  amount_t = n,
                  date_t = js_or (own_property kvs ''date'') (JStr (today clk))\<rparr>])"
  using assms by (simp add: module_exports_def on_value_def Let_def)

lemma module_exports_POST_throws:
  assumes "method req = ''POST''" and "body req = JObj kvs"
    and "truthy (own_property kvs ''description'')" and "truthy (own_property kvs ''amount'')"
    and "parseFloat (own_property kvs ''amount'') = Inl err"
  shows "module_exports clk req t = (Inl err, t)"
  using assms by (simp add: module_exports_def on_value_def Let_def)

subsection \<open>Unparseable bodies\<close>

text \<open>
  C7. A create request whose body text does not parse is handled as the empty record
  \<^verbatim>\<open>{}\<close>: it fails the required-field check with a 400 that lists both \<^verbatim>\<open>amount\<close>
  and \<^verbatim>\<open>description\<close> as missing, and the collection stays as it was; there is no
  separate error path.
\<close>

theorem unparseable_body_fails_required_fields:
  assumes "method req = ''POST''" and "stream_json req = None"
  shows "parseBody req = JObj [] \<and>
         handler clk req s =
           (sendResponse 400
              (JObj [(''error'', JStr ''Missing required fields''),
                     (''missing'', JArr [JStr ''amount'', JStr ''description''])]), s)"
proof -
  from assms(2) have pb: "parseBody req = JObj []"
    by (simp add: parseBody_def)
  have "handlePOST clk (JObj []) s = (Inr (missing_response [''amount'', ''description'']), s)"
    using handlePOST_missing [of "[]" clk s] by simp
  with pb show ?thesis
    by (simp add: handler_POST [OF assms(1)] missing_response_def)
qed

theorem unparseable_body_witness:
  "method post_unparseable = ''POST'' \<and> stream_json post_unparseable = None \<and>
   handler \<lparr>Date_now = 1764547200000, today = ''2025-12-01''\<rparr> post_unparseable expenses_init =
     (\<lparr>statusCode = 400,
       content = JObj [(''error'', JStr ''Missing required fields''),
                       (''missing'', JArr [JStr ''amount'', JStr ''description''])]\<rparr>,
      expenses_init)"
proof -
  have m: "method post_unparseable = ''POST''" and j: "stream_json post_unparseable = None"
    by (simp_all add: post_unparseable_def)
  from unparseable_body_fails_required_fields [OF m j] m j show ?thesis
    by (simp add: sendResponse_def)
qed

subsection \<open>Errors and the collection\<close>

text \<open>
  C8. A request answered with an error status (400, 405 or 500) leaves the collection
  exactly as it was: nothing is appended, removed or modified. Each request gets one
  response. This holds in \<^verbatim>\<open>api/expenses.js\<close> and in the four-field file; in the
  timestamp-id file, which has no \<^verbatim>\<open>try\<close>, it holds for its 400 and 405 responses and
  for an uncaught throw.
\<close>

theorem error_response_leaves_collection_unchanged:
  "(statusCode (fst (handler clk req s)) \<in> {400, 405, 500}
      \<longrightarrow> snd (handler clk req s) = s) \<and>
   (statusCode (fst (handler_p req s)) \<in> {400, 405, 500}
      \<longrightarrow> snd (handler_p req s) = s) \<and>
   ((case fst (module_exports clk req t) of
       Inl err \<Rightarrow> True | Inr r \<Rightarrow> statusCode r \<in> {400, 405, 500})
      \<longrightarrow> snd (module_exports clk req t) = t)"
proof (intro conjI impI)
  assume "statusCode (fst (handler clk req s)) \<in> {400, 405, 500}"
  with handler_store [of clk req s] show "snd (handler clk req s) = s"
    by auto
next
  assume "statusCode (fst (handler_p req s)) \<in> {400, 405, 500}"
  with handler_p_store [of req s] show "snd (handler_p req s) = s"
    by auto
next
  assume "case fst (module_exports clk req t) of
            Inl err \<Rightarrow> True | Inr r \<Rightarrow> statusCode r \<in> {400, 405, 500}"
  with module_exports_store [of clk req t] show "snd (module_exports clk req t) = t"
    by auto
qed

theorem error_response_witness:
  "statusCode (fst (handler \<lparr>Date_now = 1764547200000, today = ''2025-12-01''\<rparr>
                     (post (JObj [(''amount'', JNum (Fin (- 5))), (''description'', JStr ''Coffee'')]))
                     expenses_init)) = 400 \<and>
   snd (handler \<lparr>Date_now = 1764547200000, today = ''2025-12-01''\<rparr>
          (post (JObj [(''amount'', JNum (Fin (- 5))), (''description'', JStr ''Coffee'')]))
          expenses_init) = expenses_init \<and>
   statusCode (fst (handler \<lparr>Date_now = 1764547200000, today = ''2025-12-01''\<rparr>
                     (bodiless ''DELETE'') expenses_init)) = 405 \<and>
   snd (handler \<lparr>Date_now = 1764547200000, today = ''2025-12-01''\<rparr>
          (bodiless ''DELETE'') expenses_init) = expenses_init \<and>
   statusCode (fst (handler \<lparr>Date_now = 1764547200000, today = ''2025-12-01''\<rparr>
                     (post JNull) expenses_init)) = 500 \<and>
   snd (handler \<lparr>Date_now = 1764547200000, today = ''2025-12-01''\<rparr>
          (post JNull) expenses_init) = expenses_init"
proof -
  let ?clk = "\<lparr>Date_now = 1764547200000, today = ''2025-12-01''\<rparr>"
  let ?neg = "post (JObj [(''amount'', JNum (Fin (- 5))), (''description'', JStr ''Coffee'')])"
  have a: "statusCode (fst (handler ?clk ?neg expenses_init)) = 400"
    by (simp add: handler_def post_def parseBody_def handlePOST_def on_value_def
        own_property_def isNaN_def Let_def)
  have b: "statusCode (fst (handler ?clk (bodiless ''DELETE'') expenses_init)) = 405"
    by (simp add: handler_def bodiless_def sendResponse_def)
  have c: "statusCode (fst (handler ?clk (post JNull) expenses_init)) = 500"
    by (simp add: handler_def post_def parseBody_def handlePOST_def sendResponse_def)
  from a error_response_leaves_collection_unchanged [of ?clk ?neg expenses_init]
  have a': "snd (handler ?clk ?neg expenses_init) = expenses_init" by simp
  from b error_response_leaves_collection_unchanged [of ?clk "bodiless ''DELETE''" expenses_init]
  have b': "snd (handler ?clk (bodiless ''DELETE'') expenses_init) = expenses_init" by simp
  from c error_response_leaves_collection_unchanged [of ?clk "post JNull" expenses_init]
  have c': "snd (handler ?clk (post JNull) expenses_init) = expenses_init" by simp
  from a b c a' b' c' show ?thesis by simp
qed

subsection \<open>The list operation changes nothing\<close>

text \<open>
  C9. The list operation has no side effect: after a GET the collection is the same
  sequence of records as before, also in \<^verbatim>\<open>api/expenses.js\<close>, which serves a reversed
  copy.
\<close>

theorem list_operation_keeps_collection:
  "(method req = ''GET'' \<longrightarrow> snd (handler clk req s) = s) \<and>
   snd (handleGET s) = s \<and>
   (method req = ''GET'' \<longrightarrow> snd (handler_p req s) = s) \<and>
   (method req = ''GET'' \<longrightarrow> snd (module_exports clk req t) = t)"
  by (simp add: handler_def handleGET_def handler_p_def handleGET_p_def module_exports_def
      Let_def)

theorem list_operation_witness:
  "method (bodiless ''GET'') = ''GET'' \<and>
   snd (handler \<lparr>Date_now = 1764547200000, today = ''2025-12-01''\<rparr> (bodiless ''GET'')
          expenses_init) = expenses_init \<and>
   content (fst (handler \<lparr>Date_now = 1764547200000, today = ''2025-12-01''\<rparr> (bodiless ''GET'')
          expenses_init)) =
     JObj [(''data'', JArr (map expense_json (rev expenses_init))),
           (''total'', JNum (Fin 2))]"
proof -
  have m: "method (bodiless ''GET'') = ''GET''"
    by (simp add: bodiless_def)
  have c: "content (fst (handler \<lparr>Date_now = 1764547200000, today = ''2025-12-01''\<rparr>
              (bodiless ''GET'') expenses_init)) =
           JObj [(''data'', JArr (map expense_json (rev expenses_init))),
                 (''total'', JNum (Fin 2))]"
    by (simp add: handler_def handleGET_def bodiless_def sendResponse_def expenses_init_def)
  from list_operation_keeps_collection
         [of "bodiless ''GET''" "\<lparr>Date_now = 1764547200000, today = ''2025-12-01''\<rparr>"
             expenses_init] m c
  show ?thesis by simp
qed

subsection \<open>The numeric check on the amount\<close>

text \<open>
  C1, as the code has it. In \<^verbatim>\<open>api/expenses.js\<close> and in the four-field file, a create
  request that carries every required field and whose amount \<^verbatim>\<open>parseFloat\<close> can read is
  answered 400 (\<^verbatim>\<open>Invalid amount\<close>) with the collection unchanged exactly when
  \<^verbatim>\<open>parseFloat(amount)\<close> is NaN or not above zero; otherwise the record is stored with
  the parsed amount and the answer is 201; this includes an amount that parses to
  +Infinity, as finiteness is not tested. When \<^verbatim>\<open>parseFloat(amount)\<close> throws, the answer
  is 500 and the collection is unchanged. The timestamp-id file has no numeric check: a
  request with a truthy description and a truthy amount is stored with
  \<^verbatim>\<open>parseFloat(amount)\<close>, whatever that is.
\<close>

theorem numeric_check_on_amount:
  "(method req = ''POST'' \<and> stream_json req = Some (JObj kvs) \<and>
    map_of kvs ''amount'' = Some a \<and> map_of kvs ''description'' = Some d
    \<longrightarrow>
      (case parseFloat a of
         Inr n \<Rightarrow>
           if isNaN n \<or> le_zero n
           then handler clk req s =
                  (sendResponse 400
                     (JObj [(''error'', JStr ''Invalid amount. Must be a positive number.'')]), s)
           else statusCode (fst (handler clk req s)) = 201 \<and>
                (\<exists>e. snd (handler clk req s) = s @ [e] \<and> amount e = n)
       | Inl err \<Rightarrow>
           handler clk req s =
             (sendResponse 500 (JObj [(''error'', JStr ''Internal Server Error'')]), s))) \<and>
   (method req = ''POST'' \<and> body req = JObj kvs \<and>
    map_of kvs ''amount'' = Some a \<and> map_of kvs ''description'' = Some d \<and>
    map_of kvs ''category'' = Some c \<and> map_of kvs ''date'' = Some dt
    \<longrightarrow>
      (case parseFloat a of
         Inr n \<Rightarrow>
           if isNaN n \<or> le_zero n
           then handler_p req s =
                  (sendResponse 400
                     (JObj [(''error'', JStr ''Invalid amount. Must be a positive number.'')]), s)
           else statusCode (fst (handler_p req s)) = 201 \<and>
                (\<exists>e. snd (handler_p req s) = s @ [e] \<and> amount e = n)
       | Inl err \<Rightarrow>
           handler_p req s =
             (sendResponse 500 (JObj [(''error'', JStr ''Internal Server Error'')]), s))) \<and>
   (method req = ''POST'' \<and> body req = JObj kvs \<and>
    truthy (own_property kvs ''description'') \<and> truthy (own_property kvs ''amount'') \<and>
    parseFloat (own_property kvs ''amount'') = Inr n
    \<longrightarrow>
      (\<exists>r e. module_exports clk req t = (Inr r, t @ [e]) \<and> statusCode r = 201 \<and>
             amount_t e = n))"
proof (intro conjI impI)
  assume h: "method req = ''POST'' \<and> stream_json req = Some (JObj kvs) \<and>
             map_of kvs ''amount'' = Some a \<and> map_of kvs ''description'' = Some d"
  show "case parseFloat a of
         Inr n \<Rightarrow>
           if isNaN n \<or> le_zero n
           then handler clk req s =
                  (sendResponse 400
                     (JObj [(''error'', JStr ''Invalid amount. Must be a positive number.'')]), s)
           else statusCode (fst (handler clk req s)) = 201 \<and>
                (\<exists>e. snd (handler clk req s) = s @ [e] \<and> amount e = n)
       | Inl err \<Rightarrow>
           handler clk req s =
             (sendResponse 500 (JObj [(''error'', JStr ''Internal Server Error'')]), s)"
  proof (cases "parseFloat a")
    case (Inl err)
    with h handler_POST_throws [of req kvs a d err clk s] show ?thesis
      by simp
  next
    case (Inr n)
    with h handler_POST_present [of req kvs a d n clk s] show ?thesis
      by (simp add: invalid_amount_response_def)
  qed
next
  assume h: "method req = ''POST'' \<and> body req = JObj kvs \<and>
    map_of kvs ''amount'' = Some a \<and> map_of kvs ''description'' = Some d \<and>
    map_of kvs ''category'' = Some c \<and> map_of kvs ''date'' = Some dt"
  show "case parseFloat a of
         Inr n \<Rightarrow>
           if isNaN n \<or> le_zero n
           then handler_p req s =
                  (sendResponse 400
                     (JObj [(''error'', JStr ''Invalid amount. Must be a positive number.'')]), s)
           else statusCode (fst (handler_p req s)) = 201 \<and>
                (\<exists>e. snd (handler_p req s) = s @ [e] \<and> amount e = n)
       | Inl err \<Rightarrow>
           handler_p req s =
             (sendResponse 500 (JObj [(''error'', JStr ''Internal Server Error'')]), s)"
  proof (cases "parseFloat a")
    case (Inl err)
    with h handler_p_POST_throws [of req kvs a d c dt err s] show ?thesis
      by simp
  next
    case (Inr n)
    with h handler_p_POST_present [of req kvs a d c dt n s] show ?thesis
      by (simp add: invalid_amount_response_def)
  qed
next
  assume h: "method req = ''POST'' \<and> body req = JObj kvs \<and>
    truthy (own_property kvs ''description'') \<and> truthy (own_property kvs ''amount'') \<and>
    parseFloat (own_property kvs ''amount'') = Inr n"
  then show "\<exists>r e. module_exports clk req t = (Inr r, t @ [e]) \<and> statusCode r = 201 \<and>
             amount_t e = n"
    using module_exports_POST_truthy [of req kvs n clk t] by simp
qed

text \<open>The amounts \<^verbatim>\<open>-5\<close> and \<^verbatim>\<open>"abc"\<close> in \<^verbatim>\<open>api/expenses.js\<close>: 400, nothing stored.\<close>

theorem numeric_check_witness:
  "handler \<lparr>Date_now = 1764547200000, today = ''2025-12-01''\<rparr>
     (post (JObj [(''amount'', JNum (Fin (- 5))), (''description'', JStr ''Coffee'')]))
     expenses_init =
     (\<lparr>statusCode = 400,
       content = JObj [(''error'', JStr ''Invalid amount. Must be a positive number.'')]\<rparr>,
      expenses_init) \<and>
   handler \<lparr>Date_now = 1764547200000, today = ''2025-12-01''\<rparr>
     (post (JObj [(''amount'', JStr ''abc''), (''description'', JStr ''Coffee'')]))
     expenses_init =
     (\<lparr>statusCode = 400,
       content = JObj [(''error'', JStr ''Invalid amount. Must be a positive number.'')]\<rparr>,
      expenses_init) \<and>
   statusCode (fst (handler \<lparr>Date_now = 1764547200000, today = ''2025-12-01''\<rparr>
     (post (JObj [(''amount'', JStr ''12.50''), (''description'', JStr ''Coffee'')]))
     expenses_init)) = 201 \<and>
   handler \<lparr>Date_now = 1764547200000, today = ''2025-12-01''\<rparr>
     (post (JObj [(''amount'', JObj [(''toString'', JNum (Fin 1))]),
                  (''description'', JStr ''Coffee'')]))
     expenses_init =
     (\<lparr>statusCode = 500, content = JObj [(''error'', JStr ''Internal Server Error'')]\<rparr>,
      expenses_init)"
proof -
  let ?clk = "\<lparr>Date_now = 1764547200000, today = ''2025-12-01''\<rparr>"
  note abc = parseFloat_samples(1) and num = parseFloat_samples(3)
  have 1: "handler ?clk
     (post (JObj [(''amount'', JNum (Fin (- 5))), (''description'', JStr ''Coffee'')]))
     expenses_init =
     (sendResponse 400 (JObj [(''error'', JStr ''Invalid amount. Must be a positive number.'')]),
      expenses_init)"
    using numeric_check_on_amount
      [of "post (JObj [(''amount'', JNum (Fin (- 5))), (''description'', JStr ''Coffee'')])"
          "[(''amount'', JNum (Fin (- 5))), (''description'', JStr ''Coffee'')]"
          "JNum (Fin (- 5))" "JStr ''Coffee''" ?clk expenses_init]
    by (simp add: post_def)
  have 2: "handler ?clk
     (post (JObj [(''amount'', JStr ''abc''), (''description'', JStr ''Coffee'')]))
     expenses_init =
     (sendResponse 400 (JObj [(''error'', JStr ''Invalid amount. Must be a positive number.'')]),
      expenses_init)"
    using numeric_check_on_amount
      [of "post (JObj [(''amount'', JStr ''abc''), (''description'', JStr ''Coffee'')])"
          "[(''amount'', JStr ''abc''), (''description'', JStr ''Coffee'')]"
          "JStr ''abc''" "JStr ''Coffee''" ?clk expenses_init]
    by (simp add: post_def abc isNaN_def)
  have 3: "statusCode (fst (handler ?clk
     (post (JObj [(''amount'', JStr ''12.50''), (''description'', JStr ''Coffee'')]))
     expenses_init)) = 201"
    using numeric_check_on_amount
      [of "post (JObj [(''amount'', JStr ''12.50''), (''description'', JStr ''Coffee'')])"
          "[(''amount'', JStr ''12.50''), (''description'', JStr ''Coffee'')]"
          "JStr ''12.50''" "JStr ''Coffee''" ?clk expenses_init]
    by (simp add: post_def num isNaN_def)
  have 4: "handler ?clk
     (post (JObj [(''amount'', JObj [(''toString'', JNum (Fin 1))]),
                  (''description'', JStr ''Coffee'')]))
     expenses_init =
     (sendResponse 500 (JObj [(''error'', JStr ''Internal Server Error'')]), expenses_init)"
    using numeric_check_on_amount
      [of "post (JObj [(''amount'', JObj [(''toString'', JNum (Fin 1))]),
                       (''description'', JStr ''Coffee'')])"
          "[(''amount'', JObj [(''toString'', JNum (Fin 1))]), (''description'', JStr ''Coffee'')]"
          "JObj [(''toString'', JNum (Fin 1))]" "JStr ''Coffee''" ?clk expenses_init]
    by (simp add: post_def parseFloat_def)
  from 1 2 3 4 show ?thesis by (simp add: sendResponse_def)
qed

text \<open>
  Where the claim as written fails: \<^verbatim>\<open>api/expenses.js\<close> stores an amount of
  \<^verbatim>\<open>"Infinity"\<close>, which is not finite, and the timestamp-id file stores \<^verbatim>\<open>-5\<close> and
  stores \<^verbatim>\<open>"abc"\<close> as NaN, each with a 201.
\<close>

theorem numeric_check_counterexample:
  "handler \<lparr>Date_now = 1764547200000, today = ''2025-12-01''\<rparr>
     (post (JObj [(''amount'', JStr ''Infinity''), (''description'', JStr ''Coffee'')]))
     expenses_init =
     (created_response
        \<lparr>idn = 3, amount = PosInf, description = JStr ''Coffee'',
         category = JStr ''Uncategorized'', date = JStr ''2025-12-01''\<rparr>,
      expenses_init @
        [\<lparr>idn = 3, amount = PosInf, description = JStr ''Coffee'',
          category = JStr ''Uncategorized'', date = JStr ''2025-12-01''\<rparr>]) \<and>
   statusCode (created_response
        \<lparr>idn = 3, amount = PosInf, description = JStr ''Coffee'',
         category = JStr ''Uncategorized'', date = JStr ''2025-12-01''\<rparr>) = 201 \<and>
   module_exports \<lparr>Date_now = 1764547200000, today = ''2025-12-01''\<rparr>
     (post (JObj [(''amount'', JNum (Fin (- 5))), (''description'', JStr ''Coffee'')])) [] =
     (Inr \<lparr>statusCode = 201,
           content =
             JObj [(''message'', JStr ''Expense added successfully (In-memory, NOT persistent on Vercel).''),
                   (''expense'',
                    JObj [(''id'', JStr ''1764547200000''), (''description'', JStr ''Coffee''),
                          (''amount'', JNum (Fin (- 5))), (''date'', JStr ''2025-12-01'')])]\<rparr>,
      [\<lparr>id_t = ''1764547200000'', description_t = JStr ''Coffee'', amount_t = Fin (- 5),
        date_t = JStr ''2025-12-01''\<rparr>]) \<and>
   snd (module_exports \<lparr>Date_now = 1764547200000, today = ''2025-12-01''\<rparr>
          (post (JObj [(''amount'', JStr ''abc''), (''description'', JStr ''Coffee'')])) []) =
     [\<lparr>id_t = ''1764547200000'', description_t = JStr ''Coffee'', amount_t = NaN,
       date_t = JStr ''2025-12-01''\<rparr>]"
proof -
  note inf = parseFloat_samples(2) and abc = parseFloat_samples(1) and ts = toString_sample
  have nid: "newId expenses_init = 3"
    by (simp add: newId_def expenses_init_def)
  show ?thesis
    by (simp add: handler_def post_def parseBody_def handlePOST_def on_value_def
        own_property_def isNaN_def Let_def inf abc ts nid js_or_def module_exports_def
        sendResponse_def expense_t_json_def)
qed

subsection \<open>Missing required fields\<close>

text \<open>
  C2, as the code has it. In \<^verbatim>\<open>api/expenses.js\<close> a create request whose body is a
  JSON object that lacks \<^verbatim>\<open>amount\<close> or \<^verbatim>\<open>description\<close> is answered 400 with a
  \<^verbatim>\<open>missing\<close> list that holds exactly the required fields the object lacks, in the order
  of the check, and the collection is unchanged; the
  four-field file does the same over \<^verbatim>\<open>amount\<close>, \<^verbatim>\<open>description\<close>, \<^verbatim>\<open>category\<close> and
  \<^verbatim>\<open>date\<close>. In both, a record without \<^verbatim>\<open>description\<close> has \<^verbatim>\<open>description\<close> in the
  list. The timestamp-id file answers 400 with one fixed message that names both
  fields, whichever of them is absent, and leaves the collection unchanged.
\<close>

theorem missing_fields_are_reported:
  "(method req = ''POST'' \<and> stream_json req = Some (JObj kvs) \<and>
    (map_of kvs ''amount'' = None \<or> map_of kvs ''description'' = None)
    \<longrightarrow>
      handler clk req s =
        (sendResponse 400
           (JObj [(''error'', JStr ''Missing required fields''),
                  (''missing'',
                   JArr (map JStr (filter (\<lambda>f. map_of kvs f = None)
                                     [''amount'', ''description''])))]), s) \<and>
      (map_of kvs ''description'' = None \<longrightarrow>
         ''description'' \<in> set (filter (\<lambda>f. map_of kvs f = None) [''amount'', ''description'']))) \<and>
   (method req = ''POST'' \<and> body req = JObj kvs \<and>
    (map_of kvs ''amount'' = None \<or> map_of kvs ''description'' = None)
    \<longrightarrow>
      handler_p req s =
        (sendResponse 400
           (JObj [(''error'', JStr ''Missing required fields''),
                  (''missing'',
                   JArr (map JStr (filter (\<lambda>f. map_of kvs f = None)
                                     [''amount'', ''description'', ''category'', ''date''])))]), s) \<and>
      (map_of kvs ''description'' = None \<longrightarrow>
         ''description'' \<in> set (filter (\<lambda>f. map_of kvs f = None)
                                  [''amount'', ''description'', ''category'', ''date'']))) \<and>
   (method req = ''POST'' \<and> body req = JObj kvs \<and>
    (map_of kvs ''amount'' = None \<or> map_of kvs ''description'' = None)
    \<longrightarrow>
      module_exports clk req t =
        (Inr (sendResponse 400
                (JObj [(''error'', JStr ''Missing required fields: description and amount.'')])),
         t))"
proof (intro conjI impI)
  assume h: "method req = ''POST'' \<and> stream_json req = Some (JObj kvs) \<and>
    (map_of kvs ''amount'' = None \<or> map_of kvs ''description'' = None)"
  then show "handler clk req s =
        (sendResponse 400
           (JObj [(''error'', JStr ''Missing required fields''),
                  (''missing'',
                   JArr (map JStr (filter (\<lambda>f. map_of kvs f = None)
                                     [''amount'', ''description''])))]), s)"
    using handler_POST_missing [of req kvs clk s]
    by (simp add: missing_response_def)
next
  assume h: "method req = ''POST'' \<and> body req = JObj kvs \<and>
    (map_of kvs ''amount'' = None \<or> map_of kvs ''description'' = None)"
  then have "filter (\<lambda>f. map_of kvs f = None)
               [''amount'', ''description'', ''category'', ''date''] \<noteq> []"
    by auto
  with h show "handler_p req s =
        (sendResponse 400
           (JObj [(''error'', JStr ''Missing required fields''),
                  (''missing'',
                   JArr (map JStr (filter (\<lambda>f. map_of kvs f = None)
                                     [''amount'', ''description'', ''category'', ''date''])))]), s)"
    using handler_p_POST_missing [of req kvs s]
    by (simp add: missing_response_def)
next
  assume h: "method req = ''POST'' \<and> body req = JObj kvs \<and>
    (map_of kvs ''amount'' = None \<or> map_of kvs ''description'' = None)"
  then have m: "method req = ''POST''" and b: "body req = JObj kvs" by simp_all
  from h have "\<not> truthy (own_property kvs ''description'') \<or> \<not> truthy (own_property kvs ''amount'')"
    by (auto simp: own_property_def)
  then show "module_exports clk req t =
        (Inr (sendResponse 400
                (JObj [(''error'', JStr ''Missing required fields: description and amount.'')])),
         t)"
    by (rule module_exports_POST_falsy [OF m b])
qed simp_all

theorem missing_fields_witness:
  "handler \<lparr>Date_now = 1764547200000, today = ''2025-12-01''\<rparr>
     (post (JObj [(''amount'', JNum (Fin 20))])) expenses_init =
     (\<lparr>statusCode = 400,
       content = JObj [(''error'', JStr ''Missing required fields''),
                       (''missing'', JArr [JStr ''description''])]\<rparr>,
      expenses_init) \<and>
   handler_p (post (JObj [(''amount'', JNum (Fin 20))])) expenses_init =
     (\<lparr>statusCode = 400,
       content = JObj [(''error'', JStr ''Missing required fields''),
                       (''missing'', JArr [JStr ''description'', JStr ''category'', JStr ''date''])]\<rparr>,
      expenses_init) \<and>
   module_exports \<lparr>Date_now = 1764547200000, today = ''2025-12-01''\<rparr>
     (post (JObj [(''amount'', JNum (Fin 20))])) [] =
     (Inr \<lparr>statusCode = 400,
           content = JObj [(''error'', JStr ''Missing required fields: description and amount.'')]\<rparr>,
      [])"
  using missing_fields_are_reported
    [of "post (JObj [(''amount'', JNum (Fin 20))])" "[(''amount'', JNum (Fin 20))]"
        "\<lparr>Date_now = 1764547200000, today = ''2025-12-01''\<rparr>" expenses_init "[]"]
  by (simp add: post_def sendResponse_def)

text \<open>
  Where the claim as written fails: in the timestamp-id file a record that lacks only
  \<^verbatim>\<open>amount\<close> and a record that lacks only \<^verbatim>\<open>description\<close> get the same answer, so the
  answer does not tell which field is missing. And a create request that carries no
  record at all is answered 500, not 400: a body \<^verbatim>\<open>null\<close> in \<^verbatim>\<open>api/expenses.js\<close>, no
  body in the four-field file.
\<close>

theorem missing_fields_counterexample:
  "fst (module_exports \<lparr>Date_now = 1764547200000, today = ''2025-12-01''\<rparr>
          (post (JObj [(''description'', JStr ''Coffee'')])) []) =
     Inr \<lparr>statusCode = 400,
          content = JObj [(''error'', JStr ''Missing required fields: description and amount.'')]\<rparr> \<and>
   fst (module_exports \<lparr>Date_now = 1764547200000, today = ''2025-12-01''\<rparr>
          (post (JObj [(''amount'', JNum (Fin 20))])) []) =
     Inr \<lparr>statusCode = 400,
          content = JObj [(''error'', JStr ''Missing required fields: description and amount.'')]\<rparr> \<and>
   handler \<lparr>Date_now = 1764547200000, today = ''2025-12-01''\<rparr> (post JNull) expenses_init =
     (\<lparr>statusCode = 500, content = JObj [(''error'', JStr ''Internal Server Error'')]\<rparr>,
      expenses_init) \<and>
   handler_p (bodiless ''POST'') expenses_init =
     (\<lparr>statusCode = 500, content = JObj [(''error'', JStr ''Internal Server Error'')]\<rparr>,
      expenses_init)"
  by (simp add: module_exports_def post_def on_value_def own_property_def sendResponse_def
      handler_def handler_p_def parseBody_def handlePOST_def handlePOST_p_def bodiless_def)

subsection \<open>What the list operation answers\<close>

text \<open>
  C5, as the code has it. For every state of the store a GET is answered 200 with all
  records held: \<^verbatim>\<open>api/expenses.js\<close> sends them newest first together with \<^verbatim>\<open>total\<close>,
  the number of records; the four-field file sends them in insertion order together
  with \<^verbatim>\<open>total\<close>; the timestamp-id file sends them in insertion order together with a
  fixed \<^verbatim>\<open>message\<close>, and its answer has no \<^verbatim>\<open>total\<close>. On a fresh store the first two
  answer with the two seeded records and \<^verbatim>\<open>total\<close> 2, the third with no record.
\<close>

theorem list_operation_answer:
  "(method req = ''GET'' \<longrightarrow>
      fst (handler clk req s) =
        sendResponse 200
          (JObj [(''data'', JArr (map expense_json (rev s))),
                 (''total'', JNum (Fin (of_nat (length s))))])) \<and>
   (method req = ''GET'' \<longrightarrow>
      fst (handler_p req s) =
        sendResponse 200
          (JObj [(''data'', JArr (map expense_json s)),
                 (''total'', JNum (Fin (of_nat (length s))))])) \<and>
   (method req = ''GET'' \<longrightarrow>
      fst (module_exports clk req t) =
        Inr (sendResponse 200
               (JObj [(''message'', JStr ''Data retrieved (In-memory, NOT persistent on Vercel).''),
                      (''data'', JArr (map expense_t_json t))])))"
  by (simp add: handler_def handleGET_def handler_p_def handleGET_p_def module_exports_def
      Let_def)

theorem list_operation_answer_witness:
  "fst (handler \<lparr>Date_now = 1764547200000, today = ''2025-12-01''\<rparr> (bodiless ''GET'')
          expenses_init) =
     \<lparr>statusCode = 200,
      content = JObj [(''data'', JArr (map expense_json (rev expenses_init))),
                      (''total'', JNum (Fin 2))]\<rparr> \<and>
   fst (handler_p (bodiless ''GET'') expenses_init) =
     \<lparr>statusCode = 200,
      content = JObj [(''data'', JArr (map expense_json expenses_init)),
                      (''total'', JNum (Fin 2))]\<rparr> \<and>
   fst (module_exports \<lparr>Date_now = 1764547200000, today = ''2025-12-01''\<rparr> (bodiless ''GET'') []) =
     Inr \<lparr>statusCode = 200,
          content = JObj [(''message'', JStr ''Data retrieved (In-memory, NOT persistent on Vercel).''),
                          (''data'', JArr [])]\<rparr>"
  using list_operation_answer
    [of "bodiless ''GET''" "\<lparr>Date_now = 1764547200000, today = ''2025-12-01''\<rparr>"
        expenses_init "[]"]
  by (simp add: bodiless_def sendResponse_def expenses_init_def)

text \<open>
  Where the claim as written fails: the answer of the timestamp-id file to a GET has
  the keys \<^verbatim>\<open>message\<close> and \<^verbatim>\<open>data\<close> only; reading its \<^verbatim>\<open>total\<close> gives \<^verbatim>\<open>undefined\<close>.
\<close>

theorem list_operation_counterexample:
  "fst (module_exports \<lparr>Date_now = 1764547200000, today = ''2025-12-01''\<rparr> (bodiless ''GET'')
          [\<lparr>id_t = ''1764547100000'', description_t = JStr ''Coffee'', amount_t = Fin 20,
            date_t = JStr ''2025-12-01''\<rparr>]) =
     Inr \<lparr>statusCode = 200,
          content =
            JObj [(''message'', JStr ''Data retrieved (In-memory, NOT persistent on Vercel).''),
                  (''data'',
                   JArr [JObj [(''id'', JStr ''1764547100000''), (''description'', JStr ''Coffee''),
                               (''amount'', JNum (Fin 20)), (''date'', JStr ''2025-12-01'')]])]\<rparr> \<and>
   js_in ''total''
     (JObj [(''message'', JStr ''Data retrieved (In-memory, NOT persistent on Vercel).''),
            (''data'',
             JArr [JObj [(''id'', JStr ''1764547100000''), (''description'', JStr ''Coffee''),
                         (''amount'', JNum (Fin 20)), (''date'', JStr ''2025-12-01'')]])]) =
     Inr False"
  by (simp add: module_exports_def bodiless_def sendResponse_def expense_t_json_def)

subsection \<open>The stored description\<close>

text \<open>
  C6, as the code has it. \<^verbatim>\<open>api/expenses.js\<close> and the four-field file test only that
  the key \<^verbatim>\<open>description\<close> is present: a request that passes the other checks is stored
  with the description it carries, whatever that value is, so a present but empty
  description is stored. Only the timestamp-id file refuses an empty description: it
  stores a record only when description and amount are truthy, and answers 400 with the
  collection unchanged otherwise.
\<close>

theorem description_is_stored_as_given:
  "(method req = ''POST'' \<and> stream_json req = Some (JObj kvs) \<and>
    map_of kvs ''amount'' = Some a \<and> map_of kvs ''description'' = Some d \<and>
    parseFloat a = Inr n \<and> \<not> isNaN n \<and> \<not> le_zero n
    \<longrightarrow> (\<exists>e. handler clk req s = (created_response e, s @ [e]) \<and> description e = d)) \<and>
   (method req = ''POST'' \<and> body req = JObj kvs \<and>
    map_of kvs ''amount'' = Some a \<and> map_of kvs ''description'' = Some d \<and>
    map_of kvs ''category'' = Some c \<and> map_of kvs ''date'' = Some dt \<and>
    parseFloat a = Inr n \<and> \<not> isNaN n \<and> \<not> le_zero n
    \<longrightarrow> (\<exists>e. handler_p req s = (created_response e, s @ [e]) \<and> description e = d)) \<and>
   (method req = ''POST'' \<and> body req = JObj kvs \<and>
    truthy (own_property kvs ''description'') \<and> truthy (own_property kvs ''amount'') \<and>
    parseFloat (own_property kvs ''amount'') = Inr n
    \<longrightarrow> (\<exists>r e. module_exports clk req t = (Inr r, t @ [e]) \<and> statusCode r = 201 \<and>
               description_t e = own_property kvs ''description'' \<and>
               description_t e \<noteq> JStr [])) \<and>
   (method req = ''POST'' \<and> body req = JObj kvs \<and>
    \<not> truthy (own_property kvs ''description'')
    \<longrightarrow> (\<exists>r. module_exports clk req t = (Inr r, t) \<and> statusCode r = 400))"
proof (intro conjI impI)
  assume "method req = ''POST'' \<and> stream_json req = Some (JObj kvs) \<and>
    map_of kvs ''amount'' = Some a \<and> map_of kvs ''description'' = Some d \<and>
    parseFloat a = Inr n \<and> \<not> isNaN n \<and> \<not> le_zero n"
  then show "\<exists>e. handler clk req s = (created_response e, s @ [e]) \<and> description e = d"
    using handler_POST_present [of req kvs a d n clk s] by simp
next
  assume "method req = ''POST'' \<and> body req = JObj kvs \<and>
    map_of kvs ''amount'' = Some a \<and> map_of kvs ''description'' = Some d \<and>
    map_of kvs ''category'' = Some c \<and> map_of kvs ''date'' = Some dt \<and>
    parseFloat a = Inr n \<and> \<not> isNaN n \<and> \<not> le_zero n"
  then show "\<exists>e. handler_p req s = (created_response e, s @ [e]) \<and> description e = d"
    using handler_p_POST_present [of req kvs a d c dt n s] by simp
next
  assume h: "method req = ''POST'' \<and> body req = JObj kvs \<and>
    truthy (own_property kvs ''description'') \<and> truthy (own_property kvs ''amount'') \<and>
    parseFloat (own_property kvs ''amount'') = Inr n"
  then have "truthy (own_property kvs ''description'')" by simp
  then have "own_property kvs ''description'' \<noteq> JStr []" by auto
  with h show "\<exists>r e. module_exports clk req t = (Inr r, t @ [e]) \<and> statusCode r = 201 \<and>
               description_t e = own_property kvs ''description'' \<and>
               description_t e \<noteq> JStr []"
    using module_exports_POST_truthy [of req kvs n clk t] by simp
next
  assume "method req = ''POST'' \<and> body req = JObj kvs \<and>
    \<not> truthy (own_property kvs ''description'')"
  then show "\<exists>r. module_exports clk req t = (Inr r, t) \<and> statusCode r = 400"
    using module_exports_POST_falsy [of req kvs clk t] by simp
qed

theorem description_witness:
  "(\<exists>e. handler \<lparr>Date_now = 1764547200000, today = ''2025-12-01''\<rparr>
          (post (JObj [(''amount'', JNum (Fin 20)), (''description'', JNum (Fin 7))]))
          expenses_init = (created_response e, expenses_init @ [e]) \<and>
        description e = JNum (Fin 7)) \<and>
   (\<exists>r. module_exports \<lparr>Date_now = 1764547200000, today = ''2025-12-01''\<rparr>
          (post (JObj [(''amount'', JNum (Fin 20)), (''description'', JStr [])])) [] = (Inr r, []) \<and>
        statusCode r = 400)"
  using description_is_stored_as_given
    [of "post (JObj [(''amount'', JNum (Fin 20)), (''description'', JNum (Fin 7))])"
        "[(''amount'', JNum (Fin 20)), (''description'', JNum (Fin 7))]"
        "JNum (Fin 20)" "JNum (Fin 7)" "Fin 20"
        "\<lparr>Date_now = 1764547200000, today = ''2025-12-01''\<rparr>" expenses_init]
    description_is_stored_as_given
    [of "post (JObj [(''amount'', JNum (Fin 20)), (''description'', JStr [])])"
        "[(''amount'', JNum (Fin 20)), (''description'', JStr [])]"
        "JNum (Fin 20)" "JStr []" "Fin 20"
        "\<lparr>Date_now = 1764547200000, today = ''2025-12-01''\<rparr>" expenses_init _ _ "[]"]
  by (simp add: post_def isNaN_def own_property_def)

text \<open>
  Where the claim as written fails: \<^verbatim>\<open>api/expenses.js\<close> stores a record whose
  description is the empty text.
\<close>

theorem description_counterexample:
  "handler \<lparr>Date_now = 1764547200000, today = ''2025-12-01''\<rparr>
     (post (JObj [(''amount'', JNum (Fin 20)), (''description'', JStr [])]))
     expenses_init =
     (created_response
        \<lparr>idn = 3, amount = Fin 20, description = JStr [],
         category = JStr ''Uncategorized'', date = JStr ''2025-12-01''\<rparr>,
      expenses_init @
        [\<lparr>idn = 3, amount = Fin 20, description = JStr [],
          category = JStr ''Uncategorized'', date = JStr ''2025-12-01''\<rparr>]) \<and>
   statusCode (created_response
        \<lparr>idn = 3, amount = Fin 20, description = JStr [],
         category = JStr ''Uncategorized'', date = JStr ''2025-12-01''\<rparr>) = 201"
proof -
  have nid: "newId expenses_init = 3"
    by (simp add: newId_def expenses_init_def)
  show ?thesis
    by (simp add: handler_def post_def parseBody_def handlePOST_def on_value_def
        own_property_def isNaN_def Let_def nid js_or_def)
qed

subsection \<open>Defaults for category and date\<close>

text \<open>
  C10. In \<^verbatim>\<open>api/expenses.js\<close> the defaults are taken with \<^verbatim>\<open>||\<close>, so they apply to
  every falsy value and not only to an absent key: a stored record has category
  \<^verbatim>\<open>"Uncategorized"\<close> whenever the request's category is falsy (absent, empty text,
  null, false, 0 or NaN) and the current date whenever the request's date is falsy;
  a truthy value is stored as it is.
\<close>

theorem defaults_apply_to_falsy_values:
  assumes "method req = ''POST''" and "stream_json req = Some (JObj kvs)"
    and "map_of kvs ''amount'' = Some a" and "map_of kvs ''description'' = Some d"
    and "parseFloat a = Inr n" and "\<not> isNaN n" and "\<not> le_zero n"
  shows "\<exists>e. handler clk req s = (created_response e, s @ [e]) \<and>
             category e = (if truthy (own_property kvs ''category'')
                           then own_property kvs ''category'' else JStr ''Uncategorized'') \<and>
             date e = (if truthy (own_property kvs ''date'')
                       then own_property kvs ''date'' else JStr (today clk))"
  using handler_POST_present [OF assms(1-5), of clk s] assms(6,7)
  by (simp add: js_or_def)

theorem defaults_falsy_witness:
  "\<exists>e. handler \<lparr>Date_now = 1764547200000, today = ''2025-12-01''\<rparr>
         (post (JObj [(''amount'', JNum (Fin 20)), (''description'', JStr ''Coffee''),
                      (''category'', JStr []), (''date'', JStr [])]))
         expenses_init = (created_response e, expenses_init @ [e]) \<and>
       category e = JStr ''Uncategorized'' \<and> date e = JStr ''2025-12-01''"
  using defaults_apply_to_falsy_values
    [of "post (JObj [(''amount'', JNum (Fin 20)), (''description'', JStr ''Coffee''),
                     (''category'', JStr []), (''date'', JStr [])])"
        "[(''amount'', JNum (Fin 20)), (''description'', JStr ''Coffee''),
          (''category'', JStr []), (''date'', JStr [])]"
        "JNum (Fin 20)" "JStr ''Coffee''" "Fin 20"
        "\<lparr>Date_now = 1764547200000, today = ''2025-12-01''\<rparr>" expenses_init]
  by (simp add: post_def isNaN_def own_property_def)

text \<open>
  C4, as the code has it. In \<^verbatim>\<open>api/expenses.js\<close> a create request that passes the
  checks and has no category is stored with category \<^verbatim>\<open>"Uncategorized"\<close>, one that has
  no date is stored with the current date, the answer is 201, and the \<^verbatim>\<open>total\<close> of the
  next GET is one more than before. The timestamp-id file applies the date default
  too, but its records have no category at all (and its list answer no \<^verbatim>\<open>total\<close>); the
  four-field file answers a request without category or date with 400 and stores
  nothing.
\<close>

theorem defaults_for_absent_fields:
  "(method req = ''POST'' \<and> stream_json req = Some (JObj kvs) \<and>
    map_of kvs ''amount'' = Some a \<and> map_of kvs ''description'' = Some d \<and>
    parseFloat a = Inr n \<and> \<not> isNaN n \<and> \<not> le_zero n
    \<longrightarrow>
      (\<exists>e. handler clk req s = (created_response e, s @ [e]) \<and>
           statusCode (created_response e) = 201 \<and>
           (map_of kvs ''category'' = None \<longrightarrow> category e = JStr ''Uncategorized'') \<and>
           (map_of kvs ''date'' = None \<longrightarrow> date e = JStr (today clk))) \<and>
      js_get (content (fst (handler clk' (bodiless ''GET'') s))) ''total'' =
        Inr (JNum (Fin (of_nat (length s)))) \<and>
      js_get (content (fst (handler clk' (bodiless ''GET'') (snd (handler clk req s))))) ''total'' =
        Inr (JNum (Fin (of_nat (length s) + 1)))) \<and>
   (method req = ''POST'' \<and> body req = JObj kvs \<and>
    truthy (own_property kvs ''description'') \<and> truthy (own_property kvs ''amount'') \<and>
    parseFloat (own_property kvs ''amount'') = Inr n
    \<longrightarrow>
      (\<exists>r e. module_exports clk req t = (Inr r, t @ [e]) \<and> statusCode r = 201 \<and>
             (map_of kvs ''date'' = None \<longrightarrow> date_t e = JStr (today clk)) \<and>
             js_in ''category'' (expense_t_json e) = Inr False)) \<and>
   (method req = ''POST'' \<and> body req = JObj kvs \<and>
    (map_of kvs ''category'' = None \<or> map_of kvs ''date'' = None)
    \<longrightarrow> statusCode (fst (handler_p req s)) = 400 \<and> snd (handler_p req s) = s)"
proof (intro conjI impI)
  assume h: "method req = ''POST'' \<and> stream_json req = Some (JObj kvs) \<and>
    map_of kvs ''amount'' = Some a \<and> map_of kvs ''description'' = Some d \<and>
    parseFloat a = Inr n \<and> \<not> isNaN n \<and> \<not> le_zero n"
  then have eq: "handler clk req s =
      (created_response
         \<lparr>idn = newId s, amount = n, description = d,
          category = js_or (own_property kvs ''category'') (JStr ''Uncategorized''),
          date = js_or (own_property kvs ''date'') (JStr (today clk))\<rparr>,
       s @ [\<lparr>idn = newId s, amount = n, description = d,
             category = js_or (own_property kvs ''category'') (JStr ''Uncategorized''),
             date = js_or (own_property kvs ''date'') (JStr (today clk))\<rparr>])"
    using handler_POST_present [of req kvs a d n clk s] by simp
  show "\<exists>e. handler clk req s = (created_response e, s @ [e]) \<and>
           statusCode (created_response e) = 201 \<and>
           (map_of kvs ''category'' = None \<longrightarrow> category e = JStr ''Uncategorized'') \<and>
           (map_of kvs ''date'' = None \<longrightarrow> date e = JStr (today clk))"
    unfolding eq by (simp add: js_or_def own_property_def)
  show "js_get (content (fst (handler clk' (bodiless ''GET'') s))) ''total'' =
        Inr (JNum (Fin (of_nat (length s))))"
    by (simp add: handler_def handleGET_def bodiless_def sendResponse_def own_property_def)
  show "js_get (content (fst (handler clk' (bodiless ''GET'') (snd (handler clk req s))))) ''total'' =
        Inr (JNum (Fin (of_nat (length s) + 1)))"
    unfolding eq
    by (simp add: handler_def handleGET_def bodiless_def sendResponse_def own_property_def)
next
  assume h: "method req = ''POST'' \<and> body req = JObj kvs \<and>
    truthy (own_property kvs ''description'') \<and> truthy (own_property kvs ''amount'') \<and>
    parseFloat (own_property kvs ''amount'') = Inr n"
  then show "\<exists>r e. module_exports clk req t = (Inr r, t @ [e]) \<and> statusCode r = 201 \<and>
             (map_of kvs ''date'' = None \<longrightarrow> date_t e = JStr (today clk)) \<and>
             js_in ''category'' (expense_t_json e) = Inr False"
    using module_exports_POST_truthy [of req kvs n clk t]
    by (simp add: js_or_def own_property_def expense_t_json_def)
next
  assume h: "method req = ''POST'' \<and> body req = JObj kvs \<and>
    (map_of kvs ''category'' = None \<or> map_of kvs ''date'' = None)"
  then have ne: "filter (\<lambda>f. map_of kvs f = None)
               [''amount'', ''description'', ''category'', ''date''] \<noteq> []"
    by auto
  from h have m: "method req = ''POST''" and b: "body req = JObj kvs" by simp_all
  show "statusCode (fst (handler_p req s)) = 400" and "snd (handler_p req s) = s"
    by (simp_all only: handler_p_POST_missing [OF m b ne] fst_conv snd_conv statusCode_missing)
qed

theorem defaults_absent_witness:
  "(\<exists>e. handler \<lparr>Date_now = 1764547200000, today = ''2025-12-01''\<rparr>
          (post (JObj [(''amount'', JNum (Fin 20)), (''description'', JStr ''Coffee'')]))
          expenses_init = (created_response e, expenses_init @ [e]) \<and>
        statusCode (created_response e) = 201 \<and>
        category e = JStr ''Uncategorized'' \<and> date e = JStr ''2025-12-01'') \<and>
   js_get (content (fst (handler \<lparr>Date_now = 1764547200001, today = ''2025-12-01''\<rparr>
                          (bodiless ''GET'') expenses_init))) ''total'' = Inr (JNum (Fin 2)) \<and>
   js_get (content (fst (handler \<lparr>Date_now = 1764547200001, today = ''2025-12-01''\<rparr>
                          (bodiless ''GET'')
                          (snd (handler \<lparr>Date_now = 1764547200000, today = ''2025-12-01''\<rparr>
                                  (post (JObj [(''amount'', JNum (Fin 20)),
                                               (''description'', JStr ''Coffee'')]))
                                  expenses_init))))) ''total'' = Inr (JNum (Fin 3))"
  using defaults_for_absent_fields
    [of "post (JObj [(''amount'', JNum (Fin 20)), (''description'', JStr ''Coffee'')])"
        "[(''amount'', JNum (Fin 20)), (''description'', JStr ''Coffee'')]"
        "JNum (Fin 20)" "JStr ''Coffee''" "Fin 20"
        "\<lparr>Date_now = 1764547200000, today = ''2025-12-01''\<rparr>" expenses_init
        "\<lparr>Date_now = 1764547200001, today = ''2025-12-01''\<rparr>"]
  by (simp add: post_def isNaN_def expenses_init_def)

text \<open>
  Where the claim as written fails, on the request
  \<^verbatim>\<open>{amount: 20, description: "Coffee"}\<close>: the timestamp-id file stores a record with no
  category, and the four-field file answers 400 and stores nothing.
\<close>

theorem defaults_absent_counterexample:
  "module_exports \<lparr>Date_now = 1764547200000, today = ''2025-12-01''\<rparr>
     (post (JObj [(''amount'', JNum (Fin 20)), (''description'', JStr ''Coffee'')])) [] =
     (Inr \<lparr>statusCode = 201,
           content =
             JObj [(''message'', JStr ''Expense added successfully (In-memory, NOT persistent on Vercel).''),
                   (''expense'',
                    JObj [(''id'', JStr ''1764547200000''), (''description'', JStr ''Coffee''),
                          (''amount'', JNum (Fin 20)), (''date'', JStr ''2025-12-01'')])]\<rparr>,
      [\<lparr>id_t = ''1764547200000'', description_t = JStr ''Coffee'', amount_t = Fin 20,
        date_t = JStr ''2025-12-01''\<rparr>]) \<and>
   handler_p (post (JObj [(''amount'', JNum (Fin 20)), (''description'', JStr ''Coffee'')]))
     expenses_init =
     (\<lparr>statusCode = 400,
       content = JObj [(''error'', JStr ''Missing required fields''),
                       (''missing'', JArr [JStr ''category'', JStr ''date''])]\<rparr>,
      expenses_init)"
  by (simp add: module_exports_def post_def on_value_def own_property_def sendResponse_def
      expense_t_json_def toString_sample js_or_def handler_p_def handlePOST_p_def
      missing_response_def Let_def)

subsection \<open>Identifiers\<close>

lemma fold_max_eq_Max:
  fixes i :: int
  shows "fold max ids i = Max (set (i # ids))"
  by (rule Max.set_eq_fold [symmetric])

lemma newId_greater:
  assumes "e \<in> set s"
  shows "idn e < newId s"
proof (cases s)
  case Nil
  with assms show ?thesis by simp
next
  case (Cons e0 es)
  with assms have "idn e \<in> set (idn e0 # map idn es)"
    by auto
  then have "idn e \<le> Max (set (idn e0 # map idn es))"
    by (intro Max_ge) simp_all
  then have "idn e \<le> fold max (map idn es) (idn e0)"
    by (simp only: fold_max_eq_Max)
  with Cons show ?thesis
    by (simp add: newId_def)
qed

lemma newId_empty: "newId [] = 1"
  by (simp add: newId_def)

lemma newId_nonempty:
  assumes "s \<noteq> []"
  shows "newId s = Max (idn ` set s) + 1"
proof -
  from assms obtain e es where s: "s = e # es" by (cases s) auto
  have "fold max (map idn es) (idn e) = Max (set (idn e # map idn es))"
    by (rule fold_max_eq_Max)
  with s show ?thesis
    by (simp add: newId_def)
qed

lemma distinct_append_newId:
  assumes "distinct (map idn s)" and "idn e = newId s"
  shows "distinct (map idn (s @ [e]))"
proof -
  have "idn e \<notin> set (map idn s)"
  proof
    assume "idn e \<in> set (map idn s)"
    then obtain x where "x \<in> set s" and "idn x = idn e" by auto
    with newId_greater [of x s] assms(2) show False by simp
  qed
  with assms(1) show ?thesis by simp
qed

lemma handler_keeps_ids_distinct:
  assumes "distinct (map idn s)"
  shows "distinct (map idn (snd (handler clk req s)))"
  using handler_store [of clk req s] assms distinct_append_newId by auto

lemma handler_p_keeps_ids_distinct:
  assumes "distinct (map idn s)"
  shows "distinct (map idn (snd (handler_p req s)))"
  using handler_p_store [of req s] assms distinct_append_newId by auto

lemma serve_keeps_ids_distinct:
  "distinct (map idn s) \<Longrightarrow> distinct (map idn (serve rs s))"
proof (induction rs arbitrary: s)
  case Nil
  then show ?case by simp
next
  case (Cons cr rs)
  obtain clk req where cr: "cr = (clk, req)" by (cases cr)
  from Cons.prems have "distinct (map idn (snd (handler clk req s)))"
    by (rule handler_keeps_ids_distinct)
  then show ?case
    unfolding cr serve.simps by (rule Cons.IH)
qed

lemma serve_p_keeps_ids_distinct:
  "distinct (map idn s) \<Longrightarrow> distinct (map idn (serve_p rs s))"
proof (induction rs arbitrary: s)
  case Nil
  then show ?case by simp
next
  case (Cons req rs)
  from Cons.prems have "distinct (map idn (snd (handler_p req s)))"
    by (rule handler_p_keeps_ids_distinct)
  then show ?case
    unfolding serve_p.simps by (rule Cons.IH)
qed

lemma handler_created:
  assumes "statusCode (fst (handler clk req s)) = 201"
  shows "\<exists>e. handler clk req s = (created_response e, s @ [e]) \<and> idn e = newId s"
  using handler_store [of clk req s] assms by auto

lemma handler_p_created:
  assumes "statusCode (fst (handler_p req s)) = 201"
  shows "\<exists>e. handler_p req s = (created_response e, s @ [e]) \<and> idn e = newId s"
  using handler_p_store [of req s] assms by auto

lemma two_creates_increase:
  assumes "s1 = s @ [e1]" and "s2 = s1 @ [e2]" and "idn e2 = newId s1"
  shows "idn (last s1) < idn (last s2)"
  using assms newId_greater [of e1 s1] by simp
lemma decimal_nonempty: "decimal n \<noteq> []"
  by (subst decimal.simps) simp

lemma digit_char_inj:
  assumes "0 \<le> a" and "a < 10" and "0 \<le> b" and "b < 10"
    and "char_of (48 + a) = (char_of (48 + b :: int) :: char)"
  shows "a = b"
proof -
  from assms(5) have "of_char (char_of (48 + a) :: char) = (of_char (char_of (48 + b) :: char) :: int)"
    by simp
  then have "(48 + a) mod 256 = (48 + b) mod 256"
    by (simp only: of_char_of)
  with assms(1-4) show ?thesis by simp
qed

lemma digit_char_not_minus:
  assumes "0 \<le> a" and "a < 10"
  shows "(char_of (48 + a :: int) :: char) \<noteq> CHR ''-''"
proof
  assume "(char_of (48 + a) :: char) = CHR ''-''"
  then have "of_char (char_of (48 + a) :: char) = (of_char CHR ''-'' :: int)"
    by simp
  moreover have "of_char (char_of (48 + a) :: char) = (48 + a) mod 256"
    by (simp only: of_char_of)
  moreover have "(48 + a) mod 256 = 48 + a"
    using assms by simp
  ultimately show False using assms by simp
qed

lemma decimal_no_minus: "0 \<le> n \<Longrightarrow> CHR ''-'' \<notin> set (decimal n)"
proof (induction n rule: decimal.induct)
  case (1 n)
  show ?case
  proof (cases "n < 10")
    case True
    with "1.prems" digit_char_not_minus [of n] show ?thesis
      by (subst decimal.simps) auto
  next
    case False
    with "1.prems" have nd: "0 \<le> n div 10" by simp
    have "CHR ''-'' \<notin> set (decimal (n div 10))"
      by (rule "1.IH" [OF False nd])
    moreover have "(char_of (48 + n mod 10) :: char) \<noteq> CHR ''-''"
      by (rule digit_char_not_minus) simp_all
    ultimately show ?thesis
      using False by (subst decimal.simps) auto
  qed
qed

lemma decimal_inj: "0 \<le> m \<Longrightarrow> 0 \<le> n \<Longrightarrow> decimal m = decimal n \<Longrightarrow> m = n"
proof (induction m arbitrary: n rule: decimal.induct)
  case (1 m)
  show ?case
  proof (cases "m < 10")
    case m: True
    show ?thesis
    proof (cases "n < 10")
      case True
      from "1.prems"(3) m True have "(char_of (48 + m) :: char) = char_of (48 + n)"
        by (simp add: decimal.simps [of m] decimal.simps [of n])
      with "1.prems"(1,2) m True show ?thesis
        by (intro digit_char_inj)
    next
      case False
      have "length (decimal n) = length (decimal (n div 10)) + 1"
        using False by (subst decimal.simps) simp
      moreover have "length (decimal (n div 10)) \<noteq> 0"
        using decimal_nonempty [of "n div 10"] by simp
      moreover have "length (decimal m) = 1"
        using m by (subst decimal.simps) simp
      ultimately show ?thesis using "1.prems"(3) by simp
    qed
  next
    case m: False
    show ?thesis
    proof (cases "n < 10")
      case True
      have "length (decimal m) = length (decimal (m div 10)) + 1"
        using m by (subst decimal.simps) simp
      moreover have "length (decimal (m div 10)) \<noteq> 0"
        using decimal_nonempty [of "m div 10"] by simp
      moreover have "length (decimal n) = 1"
        using True by (subst decimal.simps) simp
      ultimately show ?thesis using "1.prems"(3) by simp
    next
      case False
      have "decimal m = decimal (m div 10) @ [char_of (48 + m mod 10)]"
        using m by (subst decimal.simps) simp
      moreover have "decimal n = decimal (n div 10) @ [char_of (48 + n mod 10)]"
        using False by (subst decimal.simps) simp
      ultimately have pre: "decimal (m div 10) = decimal (n div 10)"
        and lst: "(char_of (48 + m mod 10) :: char) = char_of (48 + n mod 10)"
        using "1.prems"(3) by simp_all
      from "1.prems"(1,2) have md: "0 \<le> m div 10" and nd: "0 \<le> n div 10" by simp_all
      have q: "m div 10 = n div 10"
        by (rule "1.IH" [OF m md nd pre])
      have r: "m mod 10 = n mod 10"
        using lst by (intro digit_char_inj) simp_all
      have "m = 10 * (m div 10) + m mod 10" by simp
      also have "\<dots> = 10 * (n div 10) + n mod 10" by (simp only: q r)
      also have "\<dots> = n" by simp
      finally show ?thesis .
    qed
  qed
qed

lemma toString_inj: "toString i = toString j \<Longrightarrow> i = j"
proof -
  assume eq: "toString i = toString j"
  consider "i < 0" "j < 0" | "i < 0" "0 \<le> j" | "0 \<le> i" "j < 0" | "0 \<le> i" "0 \<le> j"
    by linarith
  then show "i = j"
  proof cases
    case 1
    with eq have "decimal (- i) = decimal (- j)" by (simp add: toString_def)
    with 1 decimal_inj [of "- i" "- j"] show ?thesis by simp
  next
    case 2
    with eq have "decimal j = CHR ''-'' # decimal (- i)"
      by (simp add: toString_def)
    then have "CHR ''-'' \<in> set (decimal j)" by simp
    with 2 decimal_no_minus [of j] show ?thesis by simp
  next
    case 3
    with eq have "decimal i = CHR ''-'' # decimal (- j)"
      by (simp add: toString_def)
    then have "CHR ''-'' \<in> set (decimal i)" by simp
    with 3 decimal_no_minus [of i] show ?thesis by simp
  next
    case 4
    with eq have "decimal i = decimal j" by (simp add: toString_def)
    with 4 decimal_inj [of i j] show ?thesis by simp
  qed
qed

lemma module_exports_created:
  assumes "fst (module_exports clk req t) = Inr r" and "statusCode r = 201"
  shows "\<exists>e. snd (module_exports clk req t) = t @ [e] \<and> id_t e = toString (Date_now clk)"
  using module_exports_store [of clk req t] assms by auto

lemma serve_t_distinct:
  assumes "sorted_wrt (<) (map (\<lambda>c. Date_now (fst c)) rs)"
    and "\<forall>e\<in>set t. \<exists>n. id_t e = toString n \<and> (\<forall>c\<in>set rs. n < Date_now (fst c))"
    and "distinct (map id_t t)"
  shows "distinct (map id_t (serve_t rs t))"
  using assms
proof (induction rs arbitrary: t)
  case Nil
  then show ?case by simp
next
  case (Cons cr rs)
  obtain clk req where cr: "cr = (clk, req)" by (cases cr)
  let ?t' = "snd (module_exports clk req t)"
  from Cons.prems(1) have sorted: "sorted_wrt (<) (map (\<lambda>c. Date_now (fst c)) rs)"
    and later: "\<forall>c\<in>set rs. Date_now clk < Date_now (fst c)"
    by (simp_all add: cr)
  from Cons.prems(2) have old:
    "\<forall>e\<in>set t. \<exists>n. id_t e = toString n \<and> n < Date_now clk \<and> (\<forall>c\<in>set rs. n < Date_now (fst c))"
    by (simp add: cr)
  have inv: "(\<forall>e\<in>set ?t'. \<exists>n. id_t e = toString n \<and> (\<forall>c\<in>set rs. n < Date_now (fst c))) \<and>
             distinct (map id_t ?t')"
  proof (cases "?t' = t")
    case True
    with old Cons.prems(3) show ?thesis by auto
  next
    case False
    with module_exports_store [of clk req t]
    obtain e where t': "?t' = t @ [e]" and ide: "id_t e = toString (Date_now clk)"
      by auto
    have fresh: "id_t e \<notin> set (map id_t t)"
    proof
      assume "id_t e \<in> set (map id_t t)"
      then obtain x where x: "x \<in> set t" and "id_t x = id_t e" by auto
      with old ide obtain n where "toString n = toString (Date_now clk)" and "n < Date_now clk"
        by metis
      with toString_inj [of n "Date_now clk"] show False by simp
    qed
    have "\<forall>e'\<in>set (t @ [e]). \<exists>n. id_t e' = toString n \<and> (\<forall>c\<in>set rs. n < Date_now (fst c))"
      using old ide later by auto
    with fresh Cons.prems(3) show ?thesis
      unfolding t' by simp
  qed
  then have "distinct (map id_t (serve_t rs ?t'))"
    using Cons.IH [OF sorted] by blast
  then show ?case by (simp add: cr)
qed

text \<open>
  C3, as the code has it. In \<^verbatim>\<open>api/expenses.js\<close> and in the four-field file every id
  in the collection is unique after every operation; a successful create gets the
  largest id held plus one (1 on an empty collection), so of two successive successful
  creates the second gets the strictly greater id. In the timestamp-id file the id is
  the decimal text of \<^verbatim>\<open>Date.now()\<close> at the create, and the ids are unique as long as
  every request is handled at a later millisecond than the one before it.
\<close>

theorem identifiers_unique_and_increasing:
  "distinct (map idn (serve rs expenses_init)) \<and>
   distinct (map idn (serve_p rs' expenses_init)) \<and>
   (statusCode (fst (handler c1 r1 s)) = 201 \<and>
    statusCode (fst (handler c2 r2 (snd (handler c1 r1 s)))) = 201
    \<longrightarrow> idn (last (snd (handler c1 r1 s)))
          < idn (last (snd (handler c2 r2 (snd (handler c1 r1 s)))))) \<and>
   (statusCode (fst (handler_p r1 s)) = 201 \<and>
    statusCode (fst (handler_p r2 (snd (handler_p r1 s)))) = 201
    \<longrightarrow> idn (last (snd (handler_p r1 s)))
          < idn (last (snd (handler_p r2 (snd (handler_p r1 s)))))) \<and>
   (statusCode (fst (handler c1 r1 s)) = 201
    \<longrightarrow> idn (last (snd (handler c1 r1 s))) = newId s) \<and>
   (statusCode (fst (handler_p r1 s)) = 201
    \<longrightarrow> idn (last (snd (handler_p r1 s))) = newId s) \<and>
   newId [] = 1 \<and>
   (s \<noteq> [] \<longrightarrow> newId s = Max (idn ` set s) + 1) \<and>
   (sorted_wrt (<) (map (\<lambda>c. Date_now (fst c)) ts) \<longrightarrow> distinct (map id_t (serve_t ts []))) \<and>
   (fst (module_exports c1 r1 t) = Inr r \<and> statusCode r = 201
    \<longrightarrow> (\<exists>e. snd (module_exports c1 r1 t) = t @ [e] \<and> id_t e = toString (Date_now c1)))"
proof (intro conjI impI)
  have init: "distinct (map idn expenses_init)"
    by (simp add: expenses_init_def)
  from init show "distinct (map idn (serve rs expenses_init))"
    by (rule serve_keeps_ids_distinct)
  from init show "distinct (map idn (serve_p rs' expenses_init))"
    by (rule serve_p_keeps_ids_distinct)
next
  assume h: "statusCode (fst (handler c1 r1 s)) = 201 \<and>
    statusCode (fst (handler c2 r2 (snd (handler c1 r1 s)))) = 201"
  then obtain e1 where 1: "snd (handler c1 r1 s) = s @ [e1]"
    using handler_created [of c1 r1 s] by auto
  from h obtain e2 where 2: "snd (handler c2 r2 (snd (handler c1 r1 s))) = snd (handler c1 r1 s) @ [e2]"
    and "idn e2 = newId (snd (handler c1 r1 s))"
    using handler_created [of c2 r2 "snd (handler c1 r1 s)"] by auto
  with 1 show "idn (last (snd (handler c1 r1 s)))
          < idn (last (snd (handler c2 r2 (snd (handler c1 r1 s)))))"
    by (intro two_creates_increase)
next
  assume h: "statusCode (fst (handler_p r1 s)) = 201 \<and>
    statusCode (fst (handler_p r2 (snd (handler_p r1 s)))) = 201"
  then obtain e1 where 1: "snd (handler_p r1 s) = s @ [e1]"
    using handler_p_created [of r1 s] by auto
  from h obtain e2 where 2: "snd (handler_p r2 (snd (handler_p r1 s))) = snd (handler_p r1 s) @ [e2]"
    and "idn e2 = newId (snd (handler_p r1 s))"
    using handler_p_created [of r2 "snd (handler_p r1 s)"] by auto
  with 1 show "idn (last (snd (handler_p r1 s)))
          < idn (last (snd (handler_p r2 (snd (handler_p r1 s)))))"
    by (intro two_creates_increase)
next
  assume "statusCode (fst (handler c1 r1 s)) = 201"
  then show "idn (last (snd (handler c1 r1 s))) = newId s"
    using handler_created [of c1 r1 s] by auto
next
  assume "statusCode (fst (handler_p r1 s)) = 201"
  then show "idn (last (snd (handler_p r1 s))) = newId s"
    using handler_p_created [of r1 s] by auto
next
  show "newId [] = 1" by (rule newId_empty)
next
  assume "s \<noteq> []"
  then show "newId s = Max (idn ` set s) + 1" by (rule newId_nonempty)
next
  assume "sorted_wrt (<) (map (\<lambda>c. Date_now (fst c)) ts)"
  then show "distinct (map id_t (serve_t ts []))"
    by (intro serve_t_distinct) simp_all
next
  assume "fst (module_exports c1 r1 t) = Inr r \<and> statusCode r = 201"
  then show "\<exists>e. snd (module_exports c1 r1 t) = t @ [e] \<and> id_t e = toString (Date_now c1)"
    using module_exports_created [of c1 r1 t r] by simp
qed

theorem identifiers_witness:
  "distinct (map idn
     (serve [(\<lparr>Date_now = 1764547200000, today = ''2025-12-01''\<rparr>,
              post (JObj [(''amount'', JNum (Fin 20)), (''description'', JStr ''Coffee'')])),
             (\<lparr>Date_now = 1764547200000, today = ''2025-12-01''\<rparr>,
              post (JObj [(''amount'', JNum (Fin 3)), (''description'', JStr ''Tea'')]))]
        expenses_init)) \<and>
   statusCode (fst (handler \<lparr>Date_now = 1764547200000, today = ''2025-12-01''\<rparr>
     (post (JObj [(''amount'', JNum (Fin 20)), (''description'', JStr ''Coffee'')]))
     expenses_init)) = 201 \<and>
   statusCode (fst (handler \<lparr>Date_now = 1764547200000, today = ''2025-12-01''\<rparr>
     (post (JObj [(''amount'', JNum (Fin 3)), (''description'', JStr ''Tea'')]))
     (snd (handler \<lparr>Date_now = 1764547200000, today = ''2025-12-01''\<rparr>
        (post (JObj [(''amount'', JNum (Fin 20)), (''description'', JStr ''Coffee'')]))
        expenses_init)))) = 201 \<and>
   idn (last (snd (handler \<lparr>Date_now = 1764547200000, today = ''2025-12-01''\<rparr>
     (post (JObj [(''amount'', JNum (Fin 20)), (''description'', JStr ''Coffee'')]))
     expenses_init)))
   < idn (last (snd (handler \<lparr>Date_now = 1764547200000, today = ''2025-12-01''\<rparr>
     (post (JObj [(''amount'', JNum (Fin 3)), (''description'', JStr ''Tea'')]))
     (snd (handler \<lparr>Date_now = 1764547200000, today = ''2025-12-01''\<rparr>
        (post (JObj [(''amount'', JNum (Fin 20)), (''description'', JStr ''Coffee'')]))
        expenses_init))))) \<and>
   sorted_wrt (<) (map (\<lambda>c. Date_now (fst c))
     [(\<lparr>Date_now = 1764547200000, today = ''2025-12-01''\<rparr>,
       post (JObj [(''amount'', JNum (Fin 20)), (''description'', JStr ''Coffee'')])),
      (\<lparr>Date_now = 1764547200001, today = ''2025-12-01''\<rparr>,
       post (JObj [(''amount'', JNum (Fin 3)), (''description'', JStr ''Tea'')]))]) \<and>
   distinct (map id_t
     (serve_t [(\<lparr>Date_now = 1764547200000, today = ''2025-12-01''\<rparr>,
                post (JObj [(''amount'', JNum (Fin 20)), (''description'', JStr ''Coffee'')])),
               (\<lparr>Date_now = 1764547200001, today = ''2025-12-01''\<rparr>,
                post (JObj [(''amount'', JNum (Fin 3)), (''description'', JStr ''Tea'')]))]
        []))"
proof -
  let ?clk = "\<lparr>Date_now = 1764547200000, today = ''2025-12-01''\<rparr>"
  let ?clk' = "\<lparr>Date_now = 1764547200001, today = ''2025-12-01''\<rparr>"
  let ?coffee = "post (JObj [(''amount'', JNum (Fin 20)), (''description'', JStr ''Coffee'')])"
  let ?tea = "post (JObj [(''amount'', JNum (Fin 3)), (''description'', JStr ''Tea'')])"
  note inst = identifiers_unique_and_increasing
    [where rs = "[(?clk, ?coffee), (?clk, ?tea)]" and ts = "[(?clk, ?coffee), (?clk', ?tea)]"
       and ?c1.0 = ?clk and ?r1.0 = ?coffee and ?c2.0 = ?clk and ?r2.0 = ?tea
       and s = expenses_init]
  have first: "handler ?clk ?coffee expenses_init =
      (created_response
         \<lparr>idn = newId expenses_init, amount = Fin 20, description = JStr ''Coffee'',
          category = JStr ''Uncategorized'', date = JStr ''2025-12-01''\<rparr>,
       expenses_init @
         [\<lparr>idn = newId expenses_init, amount = Fin 20, description = JStr ''Coffee'',
           category = JStr ''Uncategorized'', date = JStr ''2025-12-01''\<rparr>])"
    using handler_POST_present
      [of ?coffee "[(''amount'', JNum (Fin 20)), (''description'', JStr ''Coffee'')]"
          "JNum (Fin 20)" "JStr ''Coffee''" "Fin 20" ?clk expenses_init]
    by (simp add: post_def isNaN_def own_property_def js_or_def)
  have s1: "statusCode (fst (handler ?clk ?coffee expenses_init)) = 201"
    by (simp only: first fst_conv statusCode_created)
  have s2: "statusCode (fst (handler ?clk ?tea (snd (handler ?clk ?coffee expenses_init)))) = 201"
    using handler_POST_present
      [of ?tea "[(''amount'', JNum (Fin 3)), (''description'', JStr ''Tea'')]"
          "JNum (Fin 3)" "JStr ''Tea''" "Fin 3" ?clk "snd (handler ?clk ?coffee expenses_init)"]
    by (simp add: post_def isNaN_def)
  have sorted: "sorted_wrt (<) (map (\<lambda>c. Date_now (fst c)) [(?clk, ?coffee), (?clk', ?tea)])"
    by simp
  from inst s1 s2 sorted show ?thesis by blast
qed

text \<open>
  Where the claim as written fails: in the timestamp-id file two successive successful
  creates handled in the same millisecond get the same id, so the ids in the collection
  are not unique and the second id is not greater than the first.
\<close>

theorem identifiers_counterexample:
  "map id_t
     (serve_t [(\<lparr>Date_now = 1764547200000, today = ''2025-12-01''\<rparr>,
                post (JObj [(''amount'', JNum (Fin 20)), (''description'', JStr ''Coffee'')])),
               (\<lparr>Date_now = 1764547200000, today = ''2025-12-01''\<rparr>,
                post (JObj [(''amount'', JNum (Fin 3)), (''description'', JStr ''Tea'')]))]
        []) = [''1764547200000'', ''1764547200000''] \<and>
   \<not> distinct (map id_t
     (serve_t [(\<lparr>Date_now = 1764547200000, today = ''2025-12-01''\<rparr>,
                post (JObj [(''amount'', JNum (Fin 20)), (''description'', JStr ''Coffee'')])),
               (\<lparr>Date_now = 1764547200000, today = ''2025-12-01''\<rparr>,
                post (JObj [(''amount'', JNum (Fin 3)), (''description'', JStr ''Tea'')]))]
        []))"
  by (simp add: module_exports_def post_def on_value_def own_property_def toString_sample Let_def)

end
